theory Spec2Isabelle
  imports Complex_Main "HOL-Library.Word" "HOL-Library.Sublist" "HOL-Library.Log_Nat"
begin

section \<open>SecureAuth content script: the risk-assessment engine\<close>

text \<open>
  A shallow embedding of the class \<open>SecureAuthMonitor\<close> of the content script: the six
  signal collectors, \<open>calculateRiskScore\<close>, \<open>getRiskLevel\<close>, \<open>handleRiskDecision\<close> and
  \<open>handleFormSubmit\<close>.

  JavaScript strings are sequences of UTF-16 code units, modelled as lists of naturals.
  The scores of the six signals are small integers, computed exactly, and are kept as
  reals; the numbers of \<open>calculateRiskScore\<close> are doubles, with the rounding of every
  literal, product and sum. Console output is not modelled.
\<close>

subsection \<open>Strings\<close>

type_synonym jsstring = "nat list"

definition js :: "string \<Rightarrow> jsstring" where
  "js s = map of_char s"

text \<open>
  \<open>s.startsWith(p)\<close>, \<open>s.includes(p)\<close> (\<open>p\<close> occurs in \<open>s\<close> as a contiguous run) and
  \<open>s.endsWith(p)\<close>.
\<close>

fun startsWith :: "'a list \<Rightarrow> 'a list \<Rightarrow> bool" where
  "startsWith s [] = True"
| "startsWith [] (p # ps) = False"
| "startsWith (c # cs) (p # ps) = (c = p \<and> startsWith cs ps)"

fun includes_js :: "'a list \<Rightarrow> 'a list \<Rightarrow> bool" where
  "includes_js [] p = (p = [])"
| "includes_js (c # cs) p = (startsWith (c # cs) p \<or> includes_js cs p)"

definition endsWith :: "'a list \<Rightarrow> 'a list \<Rightarrow> bool" where
  "endsWith s p = startsWith (rev s) (rev p)"

text \<open>
  \<open>s.split(c)\<close> for a separator of one code unit: the pieces between the separators, in
  order; never an empty array (the second branch of the \<open>case\<close> is never taken).
\<close>

fun split_js :: "'a \<Rightarrow> 'a list \<Rightarrow> 'a list list" where
  "split_js c [] = [[]]"
| "split_js c (x # xs) =
     (if x = c then [] # split_js c xs
      else (case split_js c xs of
              piece # pieces \<Rightarrow> (x # piece) # pieces
            | [] \<Rightarrow> [[x]]))"

text \<open>\<open>a[i]\<close> on an array: undefined (\<open>None\<close>) from the length on.\<close>

fun item :: "'a list \<Rightarrow> nat \<Rightarrow> 'a option" where
  "item [] i = None"
| "item (x # xs) 0 = Some x"
| "item (x # xs) (Suc i) = item xs i"

text \<open>
  Case mapping of the ASCII letters. \<open>toUpperCase\<close> is applied by the script to hexadecimal
  digests only, where it is exactly this map; the \<open>i\<close> flag of a regular expression
  without the \<open>u\<close> flag compares code units after upper-casing, and never identifies a
  code unit from 128 on with an ASCII one, so for the ASCII patterns of the script it is this
  map as well.
\<close>

definition asciiUpper :: "nat \<Rightarrow> nat" where
  "asciiUpper c = (if 97 \<le> c \<and> c \<le> 122 then c - 32 else c)"

definition toUpperCase :: "jsstring \<Rightarrow> jsstring" where
  "toUpperCase s = map asciiUpper s"

text \<open>\<open>/p/i.test(s)\<close> for a pattern \<open>p\<close> of ASCII letters and spaces.\<close>

definition test_i :: "jsstring \<Rightarrow> jsstring \<Rightarrow> bool" where
  "test_i p s = includes_js (toUpperCase s) (toUpperCase p)"

subsection \<open>The page and the platform\<close>

text \<open>
  What the script reads from the page: \<open>window.location\<close> (the \<open>URL\<close> object built from
  \<open>href\<close> has the same \<open>hostname\<close> and \<open>protocol\<close>), the number of \<open>iframe\<close> elements of
  the document, and \<open>document.body.textContent.toLowerCase()\<close>.
\<close>

record page =
  loc_href :: jsstring
  loc_hostname :: jsstring
  loc_protocol :: jsstring
  iframeCount :: nat
  bodyTextLower :: jsstring

datatype error = Error string

record request =
  url :: jsstring
  http_method :: jsstring
  headers :: "(jsstring \<times> jsstring) list"

text \<open>A response: its \<open>ok\<close> flag and what \<open>await response.text()\<close> gives or throws.\<close>

record response =
  ok :: bool
  body_text :: "error + jsstring"

text \<open>
  The platform functions the script calls: \<open>crypto.subtle.digest('SHA-1', _)\<close> on the UTF-8
  encoding of a string (the bytes of the digest, or an error), \<open>fetch\<close>, and
  \<open>new Date().toISOString()\<close>.
\<close>

record platform =
  digest :: "jsstring \<Rightarrow> error + 8 word list"
  fetch :: "request \<Rightarrow> error + response"
  now :: jsstring

record scored =
  score :: real

subsection \<open>DomainSignal\<close>

record domain_analysis = scored +
  hostname :: jsstring
  protocol :: jsstring
  isTrusted :: bool
  suspiciousPatterns :: "jsstring list"

definition trustedDomains :: "jsstring list" where
  "trustedDomains = map js
     [''google.com'', ''microsoft.com'', ''facebook.com'', ''apple.com'',
      ''github.com'', ''linkedin.com'', ''twitter.com'', ''amazon.com'',
      ''yahoo.com'', ''dropbox.com'', ''salesforce.com'']"

text \<open>The loop over \<open>trustedDomains\<close>, left at the first entry that matches.\<close>

fun matchesTrusted :: "jsstring \<Rightarrow> jsstring list \<Rightarrow> bool" where
  "matchesTrusted h [] = False"
| "matchesTrusted h (trustedDomain # ds) =
     (if h = trustedDomain \<or> endsWith h (js ''.'' @ trustedDomain) then True
      else matchesTrusted h ds)"

text \<open>
  The character class of \<open>containsHomographs\<close> is stored mis-encoded in the source file
  (its UTF-8 bytes read in another 8-bit encoding); decoded, it is the two ranges
  U+0430 to U+044F and U+0410 to U+042F, which the comment beside it calls Cyrillic
  characters.
\<close>

definition homographChar :: "nat \<Rightarrow> bool" where
  "homographChar c = ((0x430 \<le> c \<and> c \<le> 0x44F) \<or> (0x410 \<le> c \<and> c \<le> 0x42F))"

definition containsHomographs :: "jsstring \<Rightarrow> bool" where
  "containsHomographs h = list_ex homographChar h"

definition suspiciousTLDs :: "jsstring list" where
  "suspiciousTLDs = map js [''tk'', ''ml'', ''ga'', ''cf'', ''gq'', ''xyz'', ''top'']"

definition msg_login :: jsstring where
  "msg_login = js ''Contains '' @ [34] @ js ''login'' @ [34] @ js '' in subdomain''"

definition msg_secure :: jsstring where
  "msg_secure = js ''Contains '' @ [34] @ js ''secure'' @ [34] @ js '' in domain''"

definition analyzeDomain :: "page \<Rightarrow> domain_analysis" where
  "analyzeDomain pg =
     (let h = loc_hostname pg;
          a0 = \<lparr>score = 50, hostname = h, protocol = loc_protocol pg, isTrusted = False,
                suspiciousPatterns = []\<rparr>;
          a1 = (if matchesTrusted h trustedDomains
                then a0\<lparr>isTrusted := True, score := 90\<rparr> else a0);
          a2 = (if includes_js h (js ''login'') \<and> \<not> isTrusted a1
                then a1\<lparr>suspiciousPatterns := suspiciousPatterns a1 @ [msg_login],
                        score := score a1 - 20\<rparr>
                else a1);
          a3 = (if includes_js h (js ''secure'') \<and> \<not> isTrusted a2
                then a2\<lparr>suspiciousPatterns := suspiciousPatterns a2 @ [msg_secure],
                        score := score a2 - 15\<rparr>
                else a2);
          a4 = (if containsHomographs h
                then a3\<lparr>suspiciousPatterns :=
                          suspiciousPatterns a3 @ [js ''Possible homograph attack detected''],
                        score := score a3 - 30\<rparr>
                else a3);
          tld = last (split_js 46 h);
          a5 = (if tld \<in> set suspiciousTLDs
                then a4\<lparr>suspiciousPatterns :=
                          suspiciousPatterns a4 @ [js ''Suspicious TLD: '' @ tld],
                        score := score a4 - 25\<rparr>
                else a4);
          a6 = (if loc_protocol pg \<noteq> js ''https:''
                then a5\<lparr>suspiciousPatterns := suspiciousPatterns a5 @ [js ''Not using HTTPS''],
                        score := score a5 - 40\<rparr>
                else a5)
      in a6)"

subsection \<open>TransportSignal\<close>

record certificate_analysis = scored +
  isSecure :: bool
  cert_warning :: "jsstring option"

definition analyzeCertificate :: "page \<Rightarrow> certificate_analysis" where
  "analyzeCertificate pg =
     (if loc_protocol pg = js ''https:''
      then \<lparr>score = 70, isSecure = True, cert_warning = None\<rparr>
      else \<lparr>score = 10, isSecure = False,
            cert_warning = Some (js ''Not using HTTPS - highly suspicious for login'')\<rparr>)"

subsection \<open>BreachSignal\<close>

text \<open>\<open>b.toString(16).padStart(2, '0')\<close> for a byte \<open>b\<close>.\<close>

definition hexDigit :: "nat \<Rightarrow> nat" where
  "hexDigit n = (if n < 10 then 48 + n else 87 + n)"

definition byteHex :: "8 word \<Rightarrow> jsstring" where
  "byteHex b = [hexDigit (unat b div 16), hexDigit (unat b mod 16)]"

definition sha1 :: "platform \<Rightarrow> jsstring \<Rightarrow> error + jsstring" where
  "sha1 pf str =
     (case digest pf str of
        Inl e \<Rightarrow> Inl e
      | Inr hashArray \<Rightarrow> Inr (toUpperCase (concat (map byteHex hashArray))))"

text \<open>
  \<open>parseInt(s)\<close> with no radix: leading white space, a sign, \<open>0x\<close> for radix 16, then the
  longest run of digits; \<open>NaN\<close> when there is none. The integer is the one the digits
  denote (JavaScript returns the nearest double, and \<open>-0\<close> for a negated zero).
\<close>

datatype parsed = NaN | Number int

definition isWhiteSpace :: "nat \<Rightarrow> bool" where
  "isWhiteSpace c =
     (c \<in> {9, 10, 11, 12, 13, 32, 160, 5760, 8232, 8233, 8239, 8287, 12288, 65279}
      \<or> (8192 \<le> c \<and> c \<le> 8202))"

text \<open>The value of a code unit as a digit; 36 when it is no digit in any radix.\<close>

definition digitVal :: "nat \<Rightarrow> nat" where
  "digitVal c =
     (if 48 \<le> c \<and> c \<le> 57 then c - 48
      else if 97 \<le> c \<and> c \<le> 122 then c - 87
      else if 65 \<le> c \<and> c \<le> 90 then c - 55
      else 36)"

definition parseInt :: "jsstring option \<Rightarrow> parsed" where
  "parseInt arg =
     (let s0 = (case arg of None \<Rightarrow> js ''undefined'' | Some s \<Rightarrow> s);
          s1 = dropWhile isWhiteSpace s0;
          sign = (case s1 of c # _ \<Rightarrow> if c = 45 then - 1 else 1 | [] \<Rightarrow> (1::int));
          s2 = (case s1 of c # r \<Rightarrow> if c = 45 \<or> c = 43 then r else s1 | [] \<Rightarrow> s1);
          hex = (startsWith s2 (js ''0x'') \<or> startsWith s2 (js ''0X''));
          radix = (if hex then 16 else 10);
          s3 = (if hex then drop 2 s2 else s2);
          ds = takeWhile (\<lambda>c. digitVal c < radix) s3
      in if ds = [] then NaN
         else Number (sign * int (foldl (\<lambda>n c. n * radix + digitVal c) 0 ds)))"

record breach_result = scored +
  checked :: bool
  found :: bool
  count :: "parsed option"
  warning :: "jsstring option"

definition breachRequest :: "jsstring \<Rightarrow> request" where
  "breachRequest pre =
     \<lparr>url = js ''https://api.pwnedpasswords.com/range/'' @ pre,
      http_method = js ''GET'',
      headers = [(js ''Add-Padding'', js ''true'')]\<rparr>"

definition neutral :: breach_result where
  "neutral = \<lparr>score = 50, checked = False, found = False, count = None, warning = None\<rparr>"

text \<open>The text a template literal puts for \<open>${count}\<close>.\<close>

definition interpolate :: "jsstring option \<Rightarrow> jsstring" where
  "interpolate v = (case v of None \<Rightarrow> js ''undefined'' | Some s \<Rightarrow> s)"

text \<open>
  The loop over the lines of the response, left at the first line whose part before the
  first colon is the suffix (\<open>suf\<close>; \<open>pre\<close> is the prefix). The destructuring
  \<open>[hashSuffix, count] = line.split(':')\<close> reads the first two pieces, and a piece that is
  not there is undefined.
\<close>

fun scanHashes :: "jsstring \<Rightarrow> jsstring list \<Rightarrow> breach_result option" where
  "scanHashes suf [] = None"
| "scanHashes suf (line # hashes) =
     (let hashSuffix = item (split_js 58 line) 0;
          cnt = item (split_js 58 line) 1
      in if hashSuffix = Some suf
         then Some \<lparr>score = 0, checked = True, found = True,
                    count = Some (parseInt cnt),
                    warning = Some (js ''Password found in '' @ interpolate cnt
                                    @ js '' data breaches'')\<rparr>
         else scanHashes suf hashes)"

text \<open>
  The \<open>try\<close> block: the requests it sends, and its value or the error thrown in it.
\<close>

definition checkPasswordBreach_try ::
  "platform \<Rightarrow> jsstring \<Rightarrow> request list \<times> (error + breach_result)" where
  "checkPasswordBreach_try pf password =
     (case sha1 pf password of
        Inl e \<Rightarrow> ([], Inl e)
      | Inr sha1Hash \<Rightarrow>
          (let pre = take 5 sha1Hash;
               suf = toUpperCase (drop 5 sha1Hash);
               req = breachRequest pre
           in case fetch pf req of
                Inl e \<Rightarrow> ([req], Inl e)
              | Inr resp \<Rightarrow>
                  if \<not> ok resp then ([req], Inr neutral)
                  else (case body_text resp of
                          Inl e \<Rightarrow> ([req], Inl e)
                        | Inr data \<Rightarrow>
                            (case scanHashes suf (split_js 10 data) of
                               Some r \<Rightarrow> ([req], Inr r)
                             | None \<Rightarrow>
                                 ([req], Inr \<lparr>score = 80, checked = True, found = False,
                                              count = None, warning = None\<rparr>)))))"

text \<open>The whole function: the \<open>catch\<close> clause turns every error into the neutral result.\<close>

definition checkPasswordBreach ::
  "platform \<Rightarrow> jsstring \<Rightarrow> request list \<times> (error + breach_result)" where
  "checkPasswordBreach pf password =
     (case checkPasswordBreach_try pf password of
        (sent, Inl e) \<Rightarrow> (sent, Inr neutral)
      | (sent, Inr r) \<Rightarrow> (sent, Inr r))"

subsection \<open>FormSignal\<close>

text \<open>
  The submitted form: its \<open>input\<close> descendants in document order (the \<open>type\<close> attribute in
  lower case, an attribute that is absent as the empty string), its \<open>label\<close> descendants
  with their \<open>for\<close> attribute and text, and the text of its \<open>a\<close> descendants. The selector
  \<open>label[for="..."]\<close> built from a checkbox's id is taken as equality with that id (ids
  holding a quote, a backslash or a line break are outside the model), and
  \<open>form.querySelector\<close> and \<open>form.querySelectorAll\<close> are the methods of the form element
  (no control of the form is named like them).

  A form exposes its controls as properties, by their \<open>id\<close> and \<open>name\<close>, and such a
  property hides a method of the same name. \<open>otherNames\<close> holds the ids and names of the
  controls that are not \<open>input\<close> elements (buttons, selects, text areas, field sets,
  objects, outputs) and of the images of the form; the inputs of the form are taken to be
  owned by it.
\<close>

record input_el =
  el_type :: jsstring
  el_name :: jsstring
  el_id :: jsstring
  el_autocomplete :: jsstring
  el_value :: jsstring

record label_el =
  label_for :: "jsstring option"
  label_text :: jsstring

record form =
  inputs :: "input_el list"
  labels :: "label_el list"
  links :: "jsstring list"
  otherNames :: "jsstring list"

record form_analysis = scored +
  hasProperLabels :: bool
  hasRememberMe :: bool
  hasForgotPassword :: bool
  hasRegisterLink :: bool
  suspiciousIframes :: bool

definition checkboxStep :: "form \<Rightarrow> input_el \<Rightarrow> form_analysis \<Rightarrow> form_analysis" where
  "checkboxStep f cb a =
     (case find (\<lambda>l. label_for l = Some (el_id cb)) (labels f) of
        None \<Rightarrow> a
      | Some l \<Rightarrow>
          if test_i (js ''remember'') (label_text l)
          then a\<lparr>hasRememberMe := True, score := score a + 5\<rparr>
          else a)"

definition linkStep :: "jsstring \<Rightarrow> form_analysis \<Rightarrow> form_analysis" where
  "linkStep textContent a =
     (let a1 = (if test_i (js ''forgot'') textContent \<or> test_i (js ''reset'') textContent
                then a\<lparr>hasForgotPassword := True, score := score a + 10\<rparr>
                else a)
      in if test_i (js ''register'') textContent \<or> test_i (js ''sign up'') textContent
            \<or> test_i (js ''create account'') textContent
         then a1\<lparr>hasRegisterLink := True, score := score a1 + 5\<rparr>
         else a1)"

definition analyzeFormCharacteristics :: "page \<Rightarrow> form \<Rightarrow> form_analysis" where
  "analyzeFormCharacteristics pg f =
     (let a0 = \<lparr>score = 50, hasProperLabels = False, hasRememberMe = False,
                hasForgotPassword = False, hasRegisterLink = False,
                suspiciousIframes = False\<rparr>;
          a1 = (if length (labels f) \<ge> 2
                then a0\<lparr>hasProperLabels := True, score := score a0 + 10\<rparr> else a0);
          checkboxes = filter (\<lambda>i. el_type i = js ''checkbox'') (inputs f);
          a2 = fold (checkboxStep f) checkboxes a1;
          a3 = fold linkStep (links f) a2;
          a4 = (if iframeCount pg > 0 \<and> \<not> isTrusted (analyzeDomain pg)
                then a3\<lparr>suspiciousIframes := True, score := score a3 - 20\<rparr> else a3)
      in a4)"

subsection \<open>ContentSignal\<close>

record visual_analysis = scored +
  hasOfficialBranding :: bool
  suspiciousElements :: "jsstring list"

definition analyzeVisualSimilarity :: "page \<Rightarrow> visual_analysis" where
  "analyzeVisualSimilarity pg =
     (let bodyText = bodyTextLower pg;
          a0 = \<lparr>score = 50, hasOfficialBranding = False, suspiciousElements = []\<rparr>;
          a1 = (if includes_js bodyText (js ''verify'') \<and> includes_js bodyText (js ''account'')
                then a0\<lparr>suspiciousElements :=
                          suspiciousElements a0 @ [js ''Account verification language''],
                        score := score a0 - 10\<rparr>
                else a0);
          a2 = (if includes_js bodyText (js ''suspend'') \<or> includes_js bodyText (js ''locked'')
                then a1\<lparr>suspiciousElements :=
                          suspiciousElements a1 @ [js ''Urgency language detected''],
                        score := score a1 - 15\<rparr>
                else a1);
          a3 = (if includes_js bodyText (js ''unusual activity'')
                then a2\<lparr>suspiciousElements :=
                          suspiciousElements a2 @ [js ''Security scare tactics''],
                        score := score a2 - 15\<rparr>
                else a2)
      in a3)"

subsection \<open>ReputationSignal\<close>

record reputation_analysis = scored +
  rep_checked :: bool
  warnings :: "jsstring list"

definition checkDomainReputation :: "page \<Rightarrow> reputation_analysis" where
  "checkDomainReputation pg = \<lparr>score = 50, rep_checked = True, warnings = []\<rparr>"

subsection \<open>The six signals together\<close>

record analysis_results =
  domain :: domain_analysis
  certificate :: certificate_analysis
  breachCheck :: breach_result
  formCharacteristics :: form_analysis
  visualSimilarity :: visual_analysis
  domainReputation :: reputation_analysis

text \<open>
  \<open>performSecurityAnalysis\<close>: the requests sent, and the results, or the error of a
  rejected \<open>await\<close>.
\<close>

definition performSecurityAnalysis ::
  "platform \<Rightarrow> page \<Rightarrow> jsstring \<Rightarrow> jsstring \<Rightarrow> form
     \<Rightarrow> request list \<times> (error + analysis_results)" where
  "performSecurityAnalysis pf pg password username f =
     (case checkPasswordBreach pf password of
        (sent, Inl e) \<Rightarrow> (sent, Inl e)
      | (sent, Inr breach) \<Rightarrow>
          (sent, Inr \<lparr>domain = analyzeDomain pg,
                      certificate = analyzeCertificate pg,
                      breachCheck = breach,
                      formCharacteristics = analyzeFormCharacteristics pg f,
                      visualSimilarity = analyzeVisualSimilarity pg,
                      domainReputation = checkDomainReputation pg\<rparr>))"

subsection \<open>Numbers and values\<close>

text \<open>
  A JavaScript number is a double: a finite value, an infinity or \<open>NaN\<close>. A finite double
  is given by the real it denotes; \<open>+0\<close> and \<open>-0\<close> are one value, as they are for \<open>===\<close>
  and for the comparisons.
\<close>

datatype jsnum = Finite real | PosInfinity | NegInfinity | NotANumber

definition pow2 :: "int \<Rightarrow> real" where
  "pow2 e = (if e \<ge> 0 then 2 ^ nat e else 1 / 2 ^ nat (- e))"

text \<open>Rounding to an integer, a tie to the even one.\<close>

definition roundEven :: "real \<Rightarrow> int" where
  "roundEven x =
     (let f = \<lfloor>x\<rfloor>; d = x - of_int f
      in if d < 1 / 2 then f else if d > 1 / 2 then f + 1 else if even f then f else f + 1)"

text \<open>The exponent \<open>e\<close> with \<open>2 ^ e \<le> \<bar>x\<bar> < 2 ^ (e + 1)\<close>, for \<open>x\<close> other than 0.\<close>

definition exponent :: "real \<Rightarrow> int" where
  "exponent x =
     (if \<bar>x\<bar> \<ge> 1 then bitlen \<lfloor>\<bar>x\<bar>\<rfloor> - 1 else - bitlen (\<lceil>1 / \<bar>x\<bar>\<rceil> - 1))"

text \<open>
  \<open>toDouble x\<close> is the double a real \<open>x\<close> is rounded to (IEEE 754 binary64, to nearest,
  ties to even): \<open>x\<close> is scaled by the power of two that leaves 53 bits before the point,
  rounded to an integer \<open>q\<close> and scaled back. Below \<open>2 ^ - 1022\<close> the scale stays that of
  the subnormal numbers. The result is an infinity when it would be \<open>2 ^ 1024\<close> or more:
  when the exponent is above 1023, or is 1023 and the rounding has carried \<open>q\<close> to
  \<open>2 ^ 53\<close>.
\<close>

definition toDouble :: "real \<Rightarrow> jsnum" where
  "toDouble x =
     (if x = 0 then Finite 0
      else
        (let e = max (exponent x) (- 1022);
             q = roundEven (x / pow2 (e - 52))
         in if e > 1023 \<or> (e = 1023 \<and> \<bar>q\<bar> \<ge> 9007199254740992)
            then (if x > 0 then PosInfinity else NegInfinity)
            else Finite (of_int q * pow2 (e - 52))))"

text \<open>The operators \<open>*\<close> and \<open>+\<close> on two numbers, and unary minus.\<close>

fun jsmul :: "jsnum \<Rightarrow> jsnum \<Rightarrow> jsnum" where
  "jsmul NotANumber b = NotANumber"
| "jsmul a NotANumber = NotANumber"
| "jsmul (Finite x) (Finite y) = toDouble (x * y)"
| "jsmul (Finite x) PosInfinity =
     (if x = 0 then NotANumber else if x > 0 then PosInfinity else NegInfinity)"
| "jsmul (Finite x) NegInfinity =
     (if x = 0 then NotANumber else if x > 0 then NegInfinity else PosInfinity)"
| "jsmul PosInfinity (Finite y) =
     (if y = 0 then NotANumber else if y > 0 then PosInfinity else NegInfinity)"
| "jsmul NegInfinity (Finite y) =
     (if y = 0 then NotANumber else if y > 0 then NegInfinity else PosInfinity)"
| "jsmul PosInfinity PosInfinity = PosInfinity"
| "jsmul NegInfinity NegInfinity = PosInfinity"
| "jsmul PosInfinity NegInfinity = NegInfinity"
| "jsmul NegInfinity PosInfinity = NegInfinity"

fun jsadd :: "jsnum \<Rightarrow> jsnum \<Rightarrow> jsnum" where
  "jsadd NotANumber b = NotANumber"
| "jsadd a NotANumber = NotANumber"
| "jsadd (Finite x) (Finite y) = toDouble (x + y)"
| "jsadd PosInfinity NegInfinity = NotANumber"
| "jsadd NegInfinity PosInfinity = NotANumber"
| "jsadd PosInfinity b = PosInfinity"
| "jsadd a PosInfinity = PosInfinity"
| "jsadd NegInfinity b = NegInfinity"
| "jsadd a NegInfinity = NegInfinity"

fun jsneg :: "jsnum \<Rightarrow> jsnum" where
  "jsneg (Finite x) = Finite (- x)"
| "jsneg PosInfinity = NegInfinity"
| "jsneg NegInfinity = PosInfinity"
| "jsneg NotANumber = NotANumber"

text \<open>
  The values a property can hold. A primitive is \<open>undefined\<close>, \<open>null\<close>, a boolean, a
  number, a string, a symbol or a big integer; an object is given by what its conversion to
  a primitive (\<open>ToPrimitive\<close> with hint number) returns or throws.
\<close>

datatype jsprim =
    VUndefined
  | VNull
  | VBoolean bool
  | VNumber jsnum
  | VString jsstring
  | VSymbol
  | VBigInt int

datatype jsvalue = Prim jsprim | Object "error + jsprim"

text \<open>
  The number a string converts to (\<open>StringToNumber\<close>): white space at both ends is
  dropped; the empty string is 0; then a signed decimal literal with an optional fraction
  and exponent, \<open>Infinity\<close> with an optional sign, or an unsigned literal in radix 16, 8 or
  2 after \<open>0x\<close>, \<open>0o\<close> or \<open>0b\<close>; anything else is \<open>NaN\<close>. The value of the literal is
  rounded as \<open>toDouble\<close> rounds (an implementation may ignore digits after the twentieth).
\<close>

definition trim :: "jsstring \<Rightarrow> jsstring" where
  "trim s = rev (dropWhile isWhiteSpace (rev (dropWhile isWhiteSpace s)))"

definition isDigit :: "nat \<Rightarrow> bool" where
  "isDigit c = (48 \<le> c \<and> c \<le> 57)"

definition digitsValue :: "nat \<Rightarrow> jsstring \<Rightarrow> nat" where
  "digitsValue radix ds = foldl (\<lambda>n c. n * radix + digitVal c) 0 ds"

definition allDigits :: "nat \<Rightarrow> jsstring \<Rightarrow> bool" where
  "allDigits radix ds = (ds \<noteq> [] \<and> list_all (\<lambda>c. digitVal c < radix) ds)"

definition nonDecimal :: "nat \<Rightarrow> jsstring \<Rightarrow> jsnum" where
  "nonDecimal radix ds =
     (if allDigits radix ds then toDouble (real (digitsValue radix ds)) else NotANumber)"

definition scale10 :: "nat \<Rightarrow> int \<Rightarrow> real" where
  "scale10 m e = (if e \<ge> 0 then real m * 10 ^ nat e else real m / 10 ^ nat (- e))"

text \<open>The exponent part of a decimal literal: nothing, or \<open>e\<close> or \<open>E\<close>, a sign, digits.\<close>

definition exponentPart :: "jsstring \<Rightarrow> int option" where
  "exponentPart r =
     (case r of
        [] \<Rightarrow> Some 0
      | c # d \<Rightarrow>
          if c = 101 \<or> c = 69
          then (case d of
                  [] \<Rightarrow> None
                | g # ds \<Rightarrow>
                    if g = 45
                    then (if allDigits 10 ds then Some (- int (digitsValue 10 ds)) else None)
                    else if g = 43
                    then (if allDigits 10 ds then Some (int (digitsValue 10 ds)) else None)
                    else (if allDigits 10 d then Some (int (digitsValue 10 d)) else None))
          else None)"

definition unsignedDecimal :: "jsstring \<Rightarrow> jsnum" where
  "unsignedDecimal u =
     (if u = js ''Infinity'' then PosInfinity
      else
        (let ip = takeWhile isDigit u;
             r1 = dropWhile isDigit u;
             fp = (case r1 of [] \<Rightarrow> [] | c # r \<Rightarrow> if c = 46 then takeWhile isDigit r else []);
             r2 = (case r1 of [] \<Rightarrow> [] | c # r \<Rightarrow> if c = 46 then dropWhile isDigit r else r1)
         in if ip = [] \<and> fp = [] then NotANumber
            else (case exponentPart r2 of
                    None \<Rightarrow> NotANumber
                  | Some e \<Rightarrow>
                      toDouble (scale10 (digitsValue 10 (ip @ fp)) (e - int (length fp))))))"

definition stringToNumber :: "jsstring \<Rightarrow> jsnum" where
  "stringToNumber s =
     (let t = trim s
      in case t of
           [] \<Rightarrow> Finite 0
         | c # r \<Rightarrow>
             if c = 45 then jsneg (unsignedDecimal r)
             else if c = 43 then unsignedDecimal r
             else if startsWith t (js ''0x'') \<or> startsWith t (js ''0X'')
             then nonDecimal 16 (drop 2 t)
             else if startsWith t (js ''0o'') \<or> startsWith t (js ''0O'')
             then nonDecimal 8 (drop 2 t)
             else if startsWith t (js ''0b'') \<or> startsWith t (js ''0B'')
             then nonDecimal 2 (drop 2 t)
             else unsignedDecimal t)"

text \<open>
  The left operand of \<open>score * weight\<close> as a number (\<open>ToNumeric\<close>, then the check that both
  operands are numbers): a symbol cannot be converted and a big integer cannot be mixed
  with a number, so both throw a \<open>TypeError\<close>.
\<close>

fun toNumber :: "jsprim \<Rightarrow> error + jsnum" where
  "toNumber VUndefined = Inr NotANumber"
| "toNumber VNull = Inr (Finite 0)"
| "toNumber (VBoolean b) = Inr (Finite (if b then 1 else 0))"
| "toNumber (VNumber n) = Inr n"
| "toNumber (VString s) = Inr (stringToNumber s)"
| "toNumber VSymbol = Inl (Error ''TypeError: Cannot convert a Symbol value to a number'')"
| "toNumber (VBigInt i) = Inl (Error ''TypeError: Cannot mix BigInt and other types'')"

fun toNumeric :: "jsvalue \<Rightarrow> error + jsnum" where
  "toNumeric (Prim p) = toNumber p"
| "toNumeric (Object (Inl e)) = Inl e"
| "toNumeric (Object (Inr p)) = toNumber p"

subsection \<open>RiskAggregator\<close>

datatype risk_level = LOW | MEDIUM | HIGH | CRITICAL

fun getRiskLevel :: "real \<Rightarrow> risk_level" where
  "getRiskLevel s =
     (if s \<ge> 70 then LOW
      else if s \<ge> 40 then MEDIUM
      else if s \<ge> 20 then HIGH
      else CRITICAL)"

text \<open>
  \<open>getRiskLevel\<close> on a number that need not be finite: every comparison with \<open>NaN\<close> is
  false, so \<open>NaN\<close> falls through to the last line.
\<close>

fun getRiskLevel_number :: "jsnum \<Rightarrow> risk_level" where
  "getRiskLevel_number (Finite s) = getRiskLevel s"
| "getRiskLevel_number PosInfinity = LOW"
| "getRiskLevel_number NegInfinity = CRITICAL"
| "getRiskLevel_number NotANumber = CRITICAL"

text \<open>
  The \<open>results\<close> object as \<open>calculateRiskScore\<close> reads it: \<open>results k = None\<close> when
  \<open>results[k]\<close> is falsy (undefined, null and the like), and \<open>Some v\<close> when it is truthy
  and \<open>v\<close> is the value of its \<open>score\<close> property, \<open>undefined\<close> when it has none. A
  property gives the same value each time it is read.
\<close>

type_synonym results = "string \<rightharpoonup> jsvalue"

record risk_score =
  overall :: jsnum
  level :: risk_level
  details :: results

text \<open>
  The weights as they are written, and \<open>Object.entries(weights)\<close>, in insertion order:
  each literal stands for the double nearest to it.
\<close>

definition weightLiterals :: "(string \<times> real) list" where
  "weightLiterals =
     [(''domain'', 0.30),
      (''certificate'', 0.15),
      (''breachCheck'', 0.25),
      (''formCharacteristics'', 0.15),
      (''visualSimilarity'', 0.10),
      (''domainReputation'', 0.05)]"

definition weights :: "(string \<times> jsnum) list" where
  "weights = map (\<lambda>(key, literal). (key, toDouble literal)) weightLiterals"

text \<open>
  One round of the loop. The total is an error once a conversion has thrown: the loop is
  left, and so is the function.
\<close>

fun addWeighted :: "results \<Rightarrow> string \<times> jsnum \<Rightarrow> error + jsnum \<Rightarrow> error + jsnum" where
  "addWeighted results (key, weight) (Inl e) = Inl e"
| "addWeighted results (key, weight) (Inr totalScore) =
     (case results key of
        None \<Rightarrow> Inr totalScore
      | Some v \<Rightarrow>
          if v = Prim VUndefined then Inr totalScore
          else (case toNumeric v of
                  Inl e \<Rightarrow> Inl e
                | Inr n \<Rightarrow> Inr (jsadd totalScore (jsmul n weight))))"

definition calculateRiskScore :: "results \<Rightarrow> error + risk_score" where
  "calculateRiskScore results =
     (case fold (addWeighted results) weights (Inr (Finite 0)) of
        Inl e \<Rightarrow> Inl e
      | Inr totalScore \<Rightarrow>
          Inr \<lparr>overall = totalScore, level = getRiskLevel_number totalScore,
                details = results\<rparr>)"

text \<open>A results object with all six entries, each with a number as its score.\<close>

definition six_signals ::
  "jsnum \<Rightarrow> jsnum \<Rightarrow> jsnum \<Rightarrow> jsnum \<Rightarrow> jsnum \<Rightarrow> jsnum \<Rightarrow> results" where
  "six_signals d t b f c r =
     [''domain'' \<mapsto> Prim (VNumber d), ''certificate'' \<mapsto> Prim (VNumber t),
      ''breachCheck'' \<mapsto> Prim (VNumber b), ''formCharacteristics'' \<mapsto> Prim (VNumber f),
      ''visualSimilarity'' \<mapsto> Prim (VNumber c), ''domainReputation'' \<mapsto> Prim (VNumber r)]"

text \<open>
  The weighted sum of six numbers as a sum of doubles: from 0, one term after the other in
  the order of the weights, every literal, product and sum rounded.
\<close>

definition weightedSum :: "jsnum \<Rightarrow> jsnum \<Rightarrow> jsnum \<Rightarrow> jsnum \<Rightarrow> jsnum \<Rightarrow> jsnum \<Rightarrow> jsnum" where
  "weightedSum d t b f c r =
     jsadd (jsadd (jsadd (jsadd (jsadd (jsadd (Finite 0)
       (jsmul d (toDouble 0.30)))
       (jsmul t (toDouble 0.15)))
       (jsmul b (toDouble 0.25)))
       (jsmul f (toDouble 0.15)))
       (jsmul c (toDouble 0.10)))
       (jsmul r (toDouble 0.05))"

text \<open>
  The sum over only the signals that carry a score: the entries that are missing or whose
  score is undefined are taken out of the list of weights first, and every entry that is
  left adds its term.
\<close>

definition carriesScore :: "results \<Rightarrow> string \<Rightarrow> bool" where
  "carriesScore results key =
     (case results key of None \<Rightarrow> False | Some v \<Rightarrow> v \<noteq> Prim VUndefined)"

fun addTerm :: "results \<Rightarrow> string \<times> jsnum \<Rightarrow> error + jsnum \<Rightarrow> error + jsnum" where
  "addTerm results (key, weight) (Inl e) = Inl e"
| "addTerm results (key, weight) (Inr totalScore) =
     (case toNumeric (case results key of None \<Rightarrow> Prim VUndefined | Some v \<Rightarrow> v) of
        Inl e \<Rightarrow> Inl e
      | Inr n \<Rightarrow> Inr (jsadd totalScore (jsmul n weight)))"

definition sumOverPresent :: "results \<Rightarrow> error + jsnum" where
  "sumOverPresent results =
     fold (addTerm results)
       (filter (\<lambda>(key, weight). carriesScore results key) weights) (Inr (Finite 0))"

text \<open>The object \<open>performSecurityAnalysis\<close> returns, as \<open>calculateRiskScore\<close> reads it.\<close>

definition resultsObject :: "analysis_results \<Rightarrow> results" where
  "resultsObject r =
     [''domain'' \<mapsto> Prim (VNumber (Finite (score (domain r)))),
      ''certificate'' \<mapsto> Prim (VNumber (Finite (score (certificate r)))),
      ''breachCheck'' \<mapsto> Prim (VNumber (Finite (score (breachCheck r)))),
      ''formCharacteristics'' \<mapsto> Prim (VNumber (Finite (score (formCharacteristics r)))),
      ''visualSimilarity'' \<mapsto> Prim (VNumber (Finite (score (visualSimilarity r)))),
      ''domainReputation'' \<mapsto> Prim (VNumber (Finite (score (domainReputation r))))]"

subsection \<open>DecisionPolicy\<close>

record log_entry =
  timestamp :: jsstring
  log_url :: jsstring
  log_hostname :: jsstring
  riskScore :: jsnum
  riskLevel :: risk_level

text \<open>
  What the script does to the page and to its collaborators, in the order it does it:
  the two calls on the submit event, a request to the breach service, the blocking overlay,
  the overlay with the two buttons, the message \<open>logBlockedAttempt\<close> to the background
  script, and the three steps of \<open>allowFormSubmission\<close> (the call of
  \<open>removeEventListener\<close>, \<open>form.submit()\<close>, and the timer that adds a listener). The markup
  of the overlays is not modelled.
\<close>

datatype effect =
    PreventDefault
  | StopPropagation
  | SendRequest request
  | ShowBlockingWarning risk_score
  | ShowWarningWithChoice risk_score
  | SendMessage log_entry
  | RemoveEventListener
  | FormSubmit
  | SetTimeoutAddListener

text \<open>
  The value the promise of \<open>showWarningWithChoice\<close> resolves with: \<open>'proceed'\<close> or
  \<open>'cancel'\<close>, from the two buttons.
\<close>

datatype user_choice = Proceed | Cancel

definition showBlockingWarning :: "risk_score \<Rightarrow> effect list" where
  "showBlockingWarning rs = [ShowBlockingWarning rs]"

definition logBlockedAttempt :: "platform \<Rightarrow> page \<Rightarrow> risk_score \<Rightarrow> effect list" where
  "logBlockedAttempt pf pg rs =
     [SendMessage \<lparr>timestamp = now pf, log_url = loc_href pg, log_hostname = loc_hostname pg,
                   riskScore = overall rs, riskLevel = level rs\<rparr>]"

text \<open>
  \<open>form.submit\<close> is the method only when no control of the form has the id or the name
  \<open>submit\<close>: such a control is what \<open>form.submit\<close> then gives, and calling it throws a
  \<open>TypeError\<close>. An input of type \<open>image\<close> is not exposed as a property.
\<close>

definition submitShadowed :: "form \<Rightarrow> bool" where
  "submitShadowed f =
     (list_ex (\<lambda>i. el_type i \<noteq> js ''image''
                  \<and> (el_id i = js ''submit'' \<or> el_name i = js ''submit'')) (inputs f)
      \<or> js ''submit'' \<in> set (otherNames f))"

text \<open>
  \<open>allowFormSubmission\<close>: its effects, and the error when it throws. The call of
  \<open>removeEventListener\<close> comes first; when \<open>form.submit()\<close> throws, the timer is not set.
\<close>

definition allowFormSubmission :: "form \<Rightarrow> effect list \<times> error option" where
  "allowFormSubmission f =
     (if submitShadowed f
      then ([RemoveEventListener], Some (Error ''TypeError: form.submit is not a function''))
      else ([RemoveEventListener, FormSubmit, SetTimeoutAddListener], None))"

text \<open>
  \<open>handleRiskDecision\<close>: its effects, and the error when it is rejected. The choice is
  \<open>None\<close> when no button is ever pressed: the \<open>await\<close> then never returns, and nothing
  after it runs.
\<close>

definition handleRiskDecision ::
  "platform \<Rightarrow> page \<Rightarrow> risk_score \<Rightarrow> form \<Rightarrow> user_choice option
     \<Rightarrow> effect list \<times> error option" where
  "handleRiskDecision pf pg rs f userChoice =
     (if level rs = CRITICAL \<or> level rs = HIGH
      then (showBlockingWarning rs @ logBlockedAttempt pf pg rs, None)
      else if level rs = MEDIUM
      then (case userChoice of
              Some Proceed \<Rightarrow>
                (ShowWarningWithChoice rs # fst (allowFormSubmission f),
                 snd (allowFormSubmission f))
            | _ \<Rightarrow> ([ShowWarningWithChoice rs], None))
      else allowFormSubmission f)"

text \<open>How often \<open>form.submit()\<close> is called, and how many log entries are sent.\<close>

definition submissions :: "effect list \<Rightarrow> nat" where
  "submissions es = length (filter (\<lambda>e. e = FormSubmit) es)"

fun isLog :: "effect \<Rightarrow> bool" where
  "isLog (SendMessage e) = True"
| "isLog _ = False"

definition logEntries :: "effect list \<Rightarrow> nat" where
  "logEntries es = length (filter isLog es)"

subsection \<open>SubmissionInterceptor\<close>

text \<open>The selectors of \<open>findUsernameField\<close>, in their order, as tests on an \<open>input\<close>.\<close>

definition selectors :: "(input_el \<Rightarrow> bool) list" where
  "selectors =
     [\<lambda>i. el_type i = js ''email'',
      \<lambda>i. el_type i = js ''text'' \<and> includes_js (el_name i) (js ''user''),
      \<lambda>i. el_type i = js ''text'' \<and> includes_js (el_name i) (js ''email''),
      \<lambda>i. el_type i = js ''text'' \<and> includes_js (el_name i) (js ''login''),
      \<lambda>i. el_type i = js ''text'' \<and> includes_js (el_id i) (js ''user''),
      \<lambda>i. el_type i = js ''text'' \<and> includes_js (el_id i) (js ''email''),
      \<lambda>i. el_type i = js ''text'' \<and> includes_js (el_id i) (js ''login''),
      \<lambda>i. el_autocomplete i = js ''username'',
      \<lambda>i. el_autocomplete i = js ''email'']"

text \<open>
  The loop over the selectors: \<open>form.querySelector\<close> gives the first input that matches,
  and the loop returns it when its value is not empty.
\<close>

fun firstFilled :: "(input_el \<Rightarrow> bool) list \<Rightarrow> input_el list \<Rightarrow> input_el option" where
  "firstFilled [] ins = None"
| "firstFilled (selector # rest) ins =
     (case find selector ins of
        None \<Rightarrow> firstFilled rest ins
      | Some field \<Rightarrow> if el_value field \<noteq> [] then Some field else firstFilled rest ins)"

definition findUsernameField :: "form \<Rightarrow> input_el option" where
  "findUsernameField f =
     (case firstFilled selectors (inputs f) of
        Some field \<Rightarrow> Some field
      | None \<Rightarrow> find (\<lambda>i. el_type i = js ''text'' \<or> el_type i = js ''email'') (inputs f))"

text \<open>
  What one call of \<open>handleFormSubmit\<close> leaves behind: the effects in order, the results of
  the analysis and the risk score when they were computed, and the error when the call
  was rejected.
\<close>

record outcome =
  effects :: "effect list"
  analysis :: "analysis_results option"
  assessment :: "risk_score option"
  failure :: "error option"

definition passThrough :: outcome where
  "passThrough = \<lparr>effects = [], analysis = None, assessment = None, failure = None\<rparr>"

definition handleFormSubmit ::
  "platform \<Rightarrow> page \<Rightarrow> form \<Rightarrow> user_choice option \<Rightarrow> outcome" where
  "handleFormSubmit pf pg f userChoice =
     (case find (\<lambda>i. el_type i = js ''password'') (inputs f) of
        None \<Rightarrow> passThrough
      | Some passwordField \<Rightarrow>
          if el_value passwordField = [] then passThrough
          else
            (case findUsernameField f of
               None \<Rightarrow> passThrough
             | Some usernameField \<Rightarrow>
                 if el_value usernameField = [] then passThrough
                 else
                   (case performSecurityAnalysis pf pg (el_value passwordField)
                           (el_value usernameField) f of
                      (sent, Inl e) \<Rightarrow>
                        \<lparr>effects = [PreventDefault, StopPropagation] @ map SendRequest sent,
                         analysis = None, assessment = None, failure = Some e\<rparr>
                    | (sent, Inr analysisResults) \<Rightarrow>
                        (case calculateRiskScore (resultsObject analysisResults) of
                           Inl e \<Rightarrow>
                             \<lparr>effects = [PreventDefault, StopPropagation]
                                 @ map SendRequest sent,
                               analysis = Some analysisResults, assessment = None,
                               failure = Some e\<rparr>
                         | Inr rs \<Rightarrow>
                             \<lparr>effects = [PreventDefault, StopPropagation]
                                 @ map SendRequest sent
                                 @ fst (handleRiskDecision pf pg rs f userChoice),
                               analysis = Some analysisResults,
                               assessment = Some rs,
                               failure = snd (handleRiskDecision pf pg rs f userChoice)\<rparr>))))"

subsection \<open>The submit listeners\<close>

text \<open>
  The functions registered for \<open>submit\<close> on the document, each of which calls
  \<open>handleFormSubmit\<close>, and the timers of \<open>allowFormSubmission\<close> that have not fired yet.
  \<open>init\<close> registers one function. \<open>removeEventListener\<close> is called with
  \<open>this.handleFormSubmit\<close>, which is none of the registered arrow functions, so it removes
  nothing; a timer, when it fires, registers one more function.
\<close>

record monitor =
  listeners :: nat
  timers :: nat

definition init :: monitor where
  "init = \<lparr>listeners = 1, timers = 0\<rparr>"

fun applyEffect :: "effect \<Rightarrow> monitor \<Rightarrow> monitor" where
  "applyEffect RemoveEventListener m = m"
| "applyEffect SetTimeoutAddListener m = m\<lparr>timers := timers m + 1\<rparr>"
| "applyEffect e m = m"

text \<open>
  A submit event on a document that stays in place (the form is submitted to another
  window or frame): every registered function runs \<open>handleFormSubmit\<close> on it; then,
  a second later, the timers fire.
\<close>

definition submitEvent ::
  "platform \<Rightarrow> page \<Rightarrow> form \<Rightarrow> user_choice option \<Rightarrow> monitor \<Rightarrow> outcome list \<times> monitor" where
  "submitEvent pf pg f userChoice m =
     (let outs = replicate (listeners m) (handleFormSubmit pf pg f userChoice)
      in (outs, fold applyEffect (concat (map effects outs)) m))"

definition timersFire :: "monitor \<Rightarrow> monitor" where
  "timersFire m = \<lparr>listeners = listeners m + timers m, timers = 0\<rparr>"

text \<open>The calls of \<open>form.submit()\<close> in the outcomes of one event.\<close>

definition submissionsOf :: "outcome list \<Rightarrow> nat" where
  "submissionsOf outs = sum_list (map (\<lambda>out. submissions (effects out)) outs)"

subsection \<open>Concrete pages, forms and platforms\<close>

text \<open>
  Inputs for the evaluations below. The two digests are the SHA-1 digests of
  \<open>password\<close> and \<open>password866713\<close>, whose hexadecimal forms both begin with \<open>5BAA6\<close>.
\<close>

definition digest_table :: "jsstring \<Rightarrow> error + 8 word list" where
  "digest_table str =
     (if str = js ''password''
      then Inr [0x5B, 0xAA, 0x61, 0xE4, 0xC9, 0xB9, 0x3F, 0x3F, 0x06, 0x82,
                0x25, 0x0B, 0x6C, 0xF8, 0x33, 0x1B, 0x7E, 0xE6, 0x8F, 0xD8]
      else if str = js ''password866713''
      then Inr [0x5B, 0xAA, 0x6E, 0xC3, 0x4C, 0x4F, 0xB2, 0x50, 0x40, 0x42,
                0x0B, 0x06, 0x24, 0xF8, 0x26, 0xE8, 0x74, 0x09, 0x47, 0x78]
      else Inl (Error ''digest not tabulated''))"

definition timestamp0 :: jsstring where
  "timestamp0 = js ''2024-01-01T00:00:00.000Z''"

definition pf_no_crypto :: platform where
  "pf_no_crypto =
     \<lparr>digest = (\<lambda>str. Inl (Error ''crypto.subtle is undefined'')),
      fetch = (\<lambda>req. Inl (Error ''Failed to fetch'')),
      now = timestamp0\<rparr>"

definition pf_offline :: platform where
  "pf_offline =
     \<lparr>digest = digest_table,
      fetch = (\<lambda>req. Inl (Error ''Failed to fetch'')),
      now = timestamp0\<rparr>"

definition pf_unavailable :: platform where
  "pf_unavailable =
     \<lparr>digest = digest_table,
      fetch = (\<lambda>req. Inr \<lparr>ok = False, body_text = Inr []\<rparr>),
      now = timestamp0\<rparr>"

definition pf_broken_body :: platform where
  "pf_broken_body =
     \<lparr>digest = digest_table,
      fetch = (\<lambda>req. Inr \<lparr>ok = True, body_text = Inl (Error ''body stream failed'')\<rparr>),
      now = timestamp0\<rparr>"

definition body_upper :: jsstring where
  "body_upper =
     js ''0018A45C4D1DEF81644B54AB7F969B88D65:1'' @ [13, 10]
     @ js ''1E4C9B93F3F0682250B6CF8331B7EE68FD8:3861493'' @ [13, 10]
     @ js ''011053FD0102E94D6AE2F8B83D76FAF94F6:1''"

definition body_lower :: jsstring where
  "body_lower =
     js ''0018a45c4d1def81644b54ab7f969b88d65:1'' @ [13, 10]
     @ js ''1e4c9b93f3f0682250b6cf8331b7ee68fd8:3861493'' @ [13, 10]
     @ js ''011053fd0102e94d6ae2f8b83d76faf94f6:1''"

definition pf_upper :: platform where
  "pf_upper =
     \<lparr>digest = digest_table,
      fetch = (\<lambda>req. Inr \<lparr>ok = True, body_text = Inr body_upper\<rparr>),
      now = timestamp0\<rparr>"

definition pf_lower :: platform where
  "pf_lower =
     \<lparr>digest = digest_table,
      fetch = (\<lambda>req. Inr \<lparr>ok = True, body_text = Inr body_lower\<rparr>),
      now = timestamp0\<rparr>"

definition page_github_http :: page where
  "page_github_http =
     \<lparr>loc_href = js ''http://github.com/login'', loc_hostname = js ''github.com'',
      loc_protocol = js ''http:'', iframeCount = 0, bodyTextLower = js ''sign in to github''\<rparr>"

definition page_gist_https :: page where
  "page_gist_https =
     \<lparr>loc_href = js ''https://gist.github.com/login'', loc_hostname = js ''gist.github.com'',
      loc_protocol = js ''https:'', iframeCount = 0, bodyTextLower = js ''sign in to github''\<rparr>"

definition page_example :: page where
  "page_example =
     \<lparr>loc_href = js ''https://example.org/signin'', loc_hostname = js ''example.org'',
      loc_protocol = js ''https:'', iframeCount = 0, bodyTextLower = js ''welcome back''\<rparr>"

text \<open>A form with two links, \<open>Forgot password?\<close> and \<open>Reset password\<close>, and nothing else.\<close>

definition form_two_links :: form where
  "form_two_links =
     \<lparr>inputs = [], labels = [], links = [js ''Forgot password?'', js ''Reset password''],
      otherNames = []\<rparr>"

text \<open>A search form: one text input with a value, no password input.\<close>

definition form_search :: form where
  "form_search =
     \<lparr>inputs = [\<lparr>el_type = js ''text'', el_name = js ''q'', el_id = js ''q'',
                  el_autocomplete = [], el_value = js ''isabelle''\<rparr>],
      labels = [], links = [], otherNames = []\<rparr>"

text \<open>A login form: an e-mail input and a password input, both filled, with their labels.\<close>

definition form_login :: form where
  "form_login =
     \<lparr>inputs = [\<lparr>el_type = js ''email'', el_name = js ''email'', el_id = js ''email'',
                  el_autocomplete = js ''username'', el_value = js ''ann@example.org''\<rparr>,
                \<lparr>el_type = js ''password'', el_name = js ''pw'', el_id = js ''pw'',
                  el_autocomplete = [], el_value = js ''password''\<rparr>],
      labels = [\<lparr>label_for = Some (js ''email''), label_text = js ''E-mail''\<rparr>,
                \<lparr>label_for = Some (js ''pw''), label_text = js ''Password''\<rparr>],
      links = [], otherNames = []\<rparr>"

text \<open>
  The same login form with the password \<open>password866713\<close>, and that form with a submit
  button written \<open><input type="submit" name="submit">\<close>.
\<close>

definition form_login_clean :: form where
  "form_login_clean =
     \<lparr>inputs = [\<lparr>el_type = js ''email'', el_name = js ''email'', el_id = js ''email'',
                  el_autocomplete = js ''username'', el_value = js ''ann@example.org''\<rparr>,
                \<lparr>el_type = js ''password'', el_name = js ''pw'', el_id = js ''pw'',
                  el_autocomplete = [], el_value = js ''password866713''\<rparr>],
      labels = [\<lparr>label_for = Some (js ''email''), label_text = js ''E-mail''\<rparr>,
                \<lparr>label_for = Some (js ''pw''), label_text = js ''Password''\<rparr>],
      links = [], otherNames = []\<rparr>"

definition form_login_submit :: form where
  "form_login_submit =
     \<lparr>inputs = [\<lparr>el_type = js ''email'', el_name = js ''email'', el_id = js ''email'',
                  el_autocomplete = js ''username'', el_value = js ''ann@example.org''\<rparr>,
                \<lparr>el_type = js ''password'', el_name = js ''pw'', el_id = js ''pw'',
                  el_autocomplete = [], el_value = js ''password866713''\<rparr>,
                \<lparr>el_type = js ''submit'', el_name = js ''submit'', el_id = [],
                  el_autocomplete = [], el_value = js ''Sign in''\<rparr>],
      labels = [\<lparr>label_for = Some (js ''email''), label_text = js ''E-mail''\<rparr>,
                \<lparr>label_for = Some (js ''pw''), label_text = js ''Password''\<rparr>],
      links = [], otherNames = []\<rparr>"

definition page_github_https :: page where
  "page_github_https =
     \<lparr>loc_href = js ''https://github.com/login'', loc_hostname = js ''github.com'',
      loc_protocol = js ''https:'', iframeCount = 0, bodyTextLower = js ''sign in to github''\<rparr>"

definition assessment_critical :: risk_score where
  "assessment_critical = \<lparr>overall = Finite 5, level = CRITICAL, details = Map.empty\<rparr>"

definition assessment_low :: risk_score where
  "assessment_low = \<lparr>overall = Finite 74, level = LOW, details = Map.empty\<rparr>"

text \<open>
  Six numeric scores of 50, but with the string \<open>abc\<close> as the score of the domain signal.
\<close>

definition results_abc :: results where
  "results_abc =
     (six_signals (Finite 50) (Finite 50) (Finite 50) (Finite 50) (Finite 50) (Finite 50))
       (''domain'' \<mapsto> Prim (VString (js ''abc'')))"

text \<open>
  One numeric score, one entry without a score, and four entries missing.
\<close>

definition results_partial :: results where
  "results_partial =
     [''domain'' \<mapsto> Prim (VNumber (Finite 50)), ''certificate'' \<mapsto> Prim VUndefined]"


section \<open>Properties\<close>

subsection \<open>Numbers\<close>

text \<open>The rounding of \<open>toDouble\<close>: the exponent it scales by, and how far the result is.\<close>

lemma roundEven_half: "\<bar>of_int (roundEven y) - y\<bar> \<le> 1 / 2"
  unfolding roundEven_def Let_def by (auto; linarith)

lemma pow2_pos: "0 < pow2 e"
  by (simp add: pow2_def)

lemma pow2_Suc: "pow2 (e + 1) = 2 * pow2 e"
proof (cases "e \<ge> 0")
  case True
  then show ?thesis by (simp add: pow2_def nat_add_distrib)
next
  case False
  then have "nat (- e) = Suc (nat (- (e + 1)))" by simp
  with False show ?thesis by (simp add: pow2_def)
qed

lemma exponent_bounds:
  assumes "x \<noteq> 0"
  shows "pow2 (exponent x) \<le> \<bar>x\<bar> \<and> \<bar>x\<bar> < pow2 (exponent x + 1)"
proof (cases "\<bar>x\<bar> \<ge> 1")
  case True
  let ?n = "\<lfloor>\<bar>x\<bar>\<rfloor>"
  have n: "?n > 0" using True by linarith
  from bitlen_bounds [OF n]
  have b: "2 ^ nat (bitlen ?n - 1) \<le> ?n" "?n < 2 ^ nat (bitlen ?n)" by auto
  have k: "bitlen ?n - 1 \<ge> 0" using n by (auto simp: bitlen_alt_def)
  have e: "exponent x = bitlen ?n - 1" using True by (simp add: exponent_def)
  have "real_of_int (2 ^ nat (bitlen ?n - 1)) \<le> real_of_int ?n"
    using b(1) by linarith
  also have "real_of_int ?n \<le> \<bar>x\<bar>" by (rule of_int_floor_le)
  finally have "(2::real) ^ nat (bitlen ?n - 1) \<le> \<bar>x\<bar>" by simp
  then have lo: "pow2 (exponent x) \<le> \<bar>x\<bar>"
    using k e by (simp add: pow2_def)
  have "?n + 1 \<le> 2 ^ nat (bitlen ?n)" using b(2) by linarith
  then have "real_of_int (?n + 1) \<le> real_of_int (2 ^ nat (bitlen ?n))"
    by linarith
  then have "real_of_int ?n + 1 \<le> 2 ^ nat (bitlen ?n)" by simp
  moreover have "\<bar>x\<bar> < real_of_int ?n + 1" by linarith
  ultimately have "\<bar>x\<bar> < 2 ^ nat (bitlen ?n)" by linarith
  moreover have "pow2 (exponent x + 1) = 2 ^ nat (bitlen ?n)"
    using k e by (simp add: pow2_def)
  ultimately show ?thesis using lo by simp
next
  case False
  let ?y = "1 / \<bar>x\<bar>"
  let ?m = "\<lceil>?y\<rceil>"
  let ?k = "bitlen (?m - 1)"
  have x: "0 < \<bar>x\<bar>" "\<bar>x\<bar> < 1" using assms False by auto
  then have y: "1 < ?y" by simp
  then have m: "?m - 1 > 0" by linarith
  from bitlen_bounds [OF m]
  have b: "2 ^ nat (?k - 1) \<le> ?m - 1" "?m - 1 < 2 ^ nat ?k" by auto
  have k: "?k \<ge> 1" using m by (auto simp: bitlen_alt_def)
  have e: "exponent x = - ?k" using False by (simp add: exponent_def)
  have c: "real_of_int (?m - 1) < ?y" "?y \<le> real_of_int ?m" by linarith+
  have "?m \<le> 2 ^ nat ?k" using b(2) by linarith
  then have "real_of_int ?m \<le> real_of_int (2 ^ nat ?k)" by linarith
  moreover have "real_of_int (2 ^ nat ?k) = 2 ^ nat ?k" by simp
  ultimately have u: "?y \<le> 2 ^ nat ?k" using c(2) by linarith
  have "real_of_int (2 ^ nat (?k - 1)) \<le> real_of_int (?m - 1)" using b(1) by linarith
  moreover have "real_of_int (2 ^ nat (?k - 1)) = 2 ^ nat (?k - 1)" by simp
  ultimately have l: "2 ^ nat (?k - 1) < ?y" using c(1) by linarith
  have lo: "1 / 2 ^ nat ?k \<le> \<bar>x\<bar>"
    using u x(1) by (simp add: field_simps)
  have hi: "\<bar>x\<bar> < 1 / 2 ^ nat (?k - 1)"
    using l x(1) by (simp add: field_simps)
  have p1: "pow2 (exponent x) = 1 / 2 ^ nat ?k"
    using k e by (simp add: pow2_def)
  have p2: "pow2 (exponent x + 1) = 1 / 2 ^ nat (?k - 1)"
  proof (cases "?k = 1")
    case True
    then show ?thesis using e by (simp add: pow2_def)
  next
    case f: False
    with k have "- ?k + 1 < 0" by simp
    moreover have "nat (- (- ?k + 1)) = nat (?k - 1)" by simp
    ultimately show ?thesis using e by (simp add: pow2_def)
  qed
  show ?thesis using lo hi p1 p2 by simp
qed

lemma pow2_powr: "pow2 e = 2 powr (real_of_int e)"
proof (cases "e \<ge> 0")
  case True
  then have "real_of_int e = real (nat e)" by simp
  then have "2 powr (real_of_int e) = 2 ^ nat e"
    by (simp only: powr_realpow [of 2 "nat e", simplified])
  with True show ?thesis by (simp add: pow2_def)
next
  case False
  then have "real_of_int e = - real (nat (- e))" by simp
  then have "2 powr (real_of_int e) = 1 / 2 ^ nat (- e)"
    by (simp only: powr_minus_divide powr_realpow [of 2 "nat (- e)", simplified])
  with False show ?thesis by (simp add: pow2_def)
qed

lemma pow2_add: "pow2 (a + b) = pow2 a * pow2 b"
  by (simp add: pow2_powr powr_add)

lemma pow2_mono: "a \<le> b \<Longrightarrow> pow2 a \<le> pow2 b"
  by (simp add: pow2_powr)

lemma pow2_53: "pow2 53 = 9007199254740992"
  by (simp add: pow2_def)

lemma scaled_below:
  assumes "x \<noteq> 0" and "e = max (exponent x) (- 1022)"
  shows "\<bar>x / pow2 (e - 52)\<bar> < 9007199254740992"
proof -
  have "\<bar>x\<bar> < pow2 (exponent x + 1)" using exponent_bounds [OF assms(1)] by simp
  also have "pow2 (exponent x + 1) \<le> pow2 (e + 1)"
    by (rule pow2_mono) (simp add: assms(2))
  also have "pow2 (e + 1) = pow2 53 * pow2 (e - 52)"
  proof -
    have "e + 1 = 53 + (e - 52)" by simp
    then show ?thesis by (simp only: pow2_add)
  qed
  finally have "\<bar>x\<bar> < 9007199254740992 * pow2 (e - 52)" by (simp add: pow2_53)
  then have "\<bar>x\<bar> / pow2 (e - 52) < 9007199254740992"
    using pow2_pos [of "e - 52"] by (simp add: field_simps)
  moreover have "\<bar>pow2 (e - 52)\<bar> = pow2 (e - 52)"
    using pow2_pos [of "e - 52"] by linarith
  ultimately show ?thesis by (simp add: abs_divide)
qed

lemma roundEven_below:
  assumes "\<bar>y\<bar> < 9007199254740992"
  shows "\<bar>roundEven y\<bar> \<le> 9007199254740992"
proof -
  have "\<bar>real_of_int (roundEven y) - y\<bar> \<le> 1 / 2" by (rule roundEven_half)
  with assms have "\<bar>real_of_int (roundEven y)\<bar> < 9007199254740992 + 1" by linarith
  then show ?thesis by linarith
qed

text \<open>
  A finite result of \<open>toDouble\<close> is a multiple of the unit in the last place with a
  significand of at most 53 bits, and is no further than half a unit from the real.
\<close>

lemma toDouble_nearest:
  assumes "toDouble x = Finite r" and "ulp = pow2 (max (exponent x) (- 1022) - 52)"
  shows "\<bar>r - x\<bar> \<le> ulp / 2
    \<and> (\<exists>q. r = of_int q * ulp \<and> \<bar>q\<bar> \<le> 9007199254740992)"
proof (cases "x = 0")
  case True
  with assms(1) have "r = 0" by (simp add: toDouble_def)
  with True pow2_pos [of "max (exponent x) (- 1022) - 52"] show ?thesis
    by (auto simp: assms(2) intro: exI [of _ 0])
next
  case False
  let ?q = "roundEven (x / ulp)"
  have u: "0 < ulp" by (simp add: assms(2) pow2_pos)
  have r: "r = of_int ?q * ulp"
    using assms False by (simp add: toDouble_def Let_def split: if_splits)
  have "\<bar>real_of_int ?q - x / ulp\<bar> \<le> 1 / 2" by (rule roundEven_half)
  then have "\<bar>real_of_int ?q - x / ulp\<bar> * ulp \<le> 1 / 2 * ulp"
    using u by (simp only: mult_le_cancel_right_pos)
  moreover have "\<bar>real_of_int ?q - x / ulp\<bar> * ulp = \<bar>real_of_int ?q * ulp - x\<bar>"
  proof -
    have "\<bar>real_of_int ?q - x / ulp\<bar> * ulp = \<bar>(real_of_int ?q - x / ulp) * ulp\<bar>"
      using u by (simp add: abs_mult)
    also have "(real_of_int ?q - x / ulp) * ulp = real_of_int ?q * ulp - x"
      using u by (simp add: field_simps)
    finally show ?thesis .
  qed
  ultimately have d: "\<bar>r - x\<bar> \<le> ulp / 2" by (simp add: r)
  have "\<bar>x / ulp\<bar> < 9007199254740992"
    using scaled_below [OF False refl] by (simp add: assms(2))
  then have "\<bar>?q\<bar> \<le> 9007199254740992" by (rule roundEven_below)
  with r d show ?thesis by blast
qed

text \<open>From \<open>2 ^ 1024\<close> on the result is an infinity.\<close>

lemma toDouble_overflow:
  assumes "pow2 1024 \<le> \<bar>x\<bar>"
  shows "toDouble x = (if x > 0 then PosInfinity else NegInfinity)"
proof -
  have x: "x \<noteq> 0" using assms pow2_pos [of 1024] by auto
  have "\<bar>x\<bar> < pow2 (exponent x + 1)" using exponent_bounds [OF x] by simp
  with assms have "pow2 1024 < pow2 (exponent x + 1)" by linarith
  then have "\<not> exponent x + 1 \<le> 1024" using pow2_mono [of "exponent x + 1" 1024] by linarith
  then have "exponent x > 1023" by simp
  then have "max (exponent x) (- 1022) = exponent x" and "exponent x \<noteq> 1023" by simp_all
  with \<open>exponent x > 1023\<close> show ?thesis using x by (simp add: toDouble_def Let_def)
qed

text \<open>Below \<open>2 ^ - 1022\<close> the result is a multiple of \<open>2 ^ - 1074\<close>.\<close>

lemma toDouble_subnormal:
  assumes "x \<noteq> 0" and "\<bar>x\<bar> < pow2 (- 1022)"
  shows "toDouble x = Finite (of_int (roundEven (x / pow2 (- 1074))) * pow2 (- 1074))"
proof -
  have "pow2 (exponent x) \<le> \<bar>x\<bar>" using exponent_bounds [OF assms(1)] by simp
  with assms(2) have "pow2 (exponent x) < pow2 (- 1022)" by linarith
  then have "\<not> - 1022 \<le> exponent x" using pow2_mono [of "- 1022" "exponent x"] by linarith
  then have "max (exponent x) (- 1022) = - 1022" by simp
  then show ?thesis using assms(1) by (simp add: toDouble_def Let_def)
qed

text \<open>Some values: one tenth is not a double, \<open>0.1 + 0.2\<close> is the double above
  three tenths, and a tie goes to the even significand.\<close>

lemma toDouble_tenth: "toDouble (1 / 10) = Finite (3602879701896397 / 36028797018963968)"
  by code_simp

lemma toDouble_sum: "jsadd (toDouble (1 / 10)) (toDouble (2 / 10)) = Finite (5404319552844596 / 18014398509481984)"
  by code_simp

lemma toDouble_ties:
  "toDouble 9007199254740993 = Finite 9007199254740992
   \<and> toDouble 9007199254740995 = Finite 9007199254740996
   \<and> toDouble (- 9007199254740993) = Finite (- 9007199254740992)"
  by code_simp

lemma small_doubles:
  "toDouble 50 = Finite 50 \<and> toDouble 75 = Finite 75 \<and> toDouble 31 = Finite 31
   \<and> toDouble (1 / 2) = Finite (1 / 2)"
  by code_simp

text \<open>Some strings read as numbers: surrounding white space is dropped, an exponent and a
  hexadecimal literal are read, the empty string is zero, and trailing text gives
  \<open>NaN\<close>.\<close>

lemmas parse_defs = stringToNumber_def trim_def isWhiteSpace_def unsignedDecimal_def
  nonDecimal_def exponentPart_def allDigits_def digitsValue_def digitVal_def isDigit_def
  scale10_def Let_def js_def

lemma parse_50: "stringToNumber (js ''50'') = toDouble 50"
  by (simp add: parse_defs)

lemma parse_75: "stringToNumber (js '' 7.5e1 '') = toDouble 75"
  by (simp add: parse_defs)

lemma parse_hex: "stringToNumber (js ''0x1F'') = toDouble 31"
  by (simp add: parse_defs)

lemma parse_empty: "stringToNumber [] = Finite 0"
  by (simp add: parse_defs)

lemma parse_neg_inf: "stringToNumber (js ''-Infinity'') = NegInfinity"
  by (simp add: parse_defs)

lemma parse_half: "stringToNumber (js ''-.5'') = jsneg (toDouble (1 / 2))"
  by (simp add: parse_defs)

lemma parse_px: "stringToNumber (js ''12px'') = NotANumber"
  by (simp add: parse_defs)

subsection \<open>RiskAggregator\<close>

text \<open>
  C3. Every real score gets exactly one level, and the bands are closed below: LOW from
  70 on, MEDIUM on [40, 70), HIGH on [20, 40), CRITICAL below 20.
\<close>

theorem getRiskLevel_bands:
  "(getRiskLevel s = LOW) = (70 \<le> s)
   \<and> (getRiskLevel s = MEDIUM) = (40 \<le> s \<and> s < 70)
   \<and> (getRiskLevel s = HIGH) = (20 \<le> s \<and> s < 40)
   \<and> (getRiskLevel s = CRITICAL) = (s < 20)"
  by auto

theorem getRiskLevel_bands_witness:
  "getRiskLevel 70 = LOW \<and> getRiskLevel 40 = MEDIUM \<and> getRiskLevel 20 = HIGH
   \<and> getRiskLevel (20 - 1 / 1000) = CRITICAL \<and> getRiskLevel (70 - 1 / 1000) = MEDIUM
   \<and> getRiskLevel (40 - 1 / 1000) = HIGH"
  using getRiskLevel_bands [of 70] getRiskLevel_bands [of 40] getRiskLevel_bands [of 20]
    getRiskLevel_bands [of "20 - 1 / 1000"] getRiskLevel_bands [of "70 - 1 / 1000"]
    getRiskLevel_bands [of "40 - 1 / 1000"]
  by simp

lemma weights_eval:
  "weights =
     [(''domain'', toDouble 0.30), (''certificate'', toDouble 0.15),
      (''breachCheck'', toDouble 0.25), (''formCharacteristics'', toDouble 0.15),
      (''visualSimilarity'', toDouble 0.10), (''domainReputation'', toDouble 0.05)]"
  by (simp add: weights_def weightLiterals_def)

lemma fold_six:
  "fold (addWeighted (six_signals d t b f c r)) weights (Inr (Finite 0))
     = Inr (weightedSum d t b f c r)"
  by (simp add: weights_eval six_signals_def weightedSum_def)

lemma calculateRiskScore_six:
  "calculateRiskScore (six_signals d t b f c r)
     = Inr \<lparr>overall = weightedSum d t b f c r,
            level = getRiskLevel_number (weightedSum d t b f c r),
            details = six_signals d t b f c r\<rparr>"
  by (simp add: calculateRiskScore_def fold_six)

lemma weightedSum_neutral:
  "weightedSum (Finite 50) (Finite 50) (Finite 50) (Finite 50) (Finite 50) (Finite 50) = Finite 50"
  by code_simp

lemma weightedSum_57:
  "weightedSum (Finite 57) (Finite 70) (Finite 0) (Finite 40) (Finite 39) (Finite 50)
     = Finite (5629499534213119 / 140737488355328)"
  by code_simp

lemma weightedSum_74:
  "weightedSum (Finite 90) (Finite 70) (Finite 80) (Finite 60) (Finite 50) (Finite 50) = Finite 74"
  by code_simp

lemma weightedSum_42:
  "weightedSum (Finite 50) (Finite 70) (Finite 0) (Finite 60) (Finite 50) (Finite 50) = Finite 42"
  by code_simp

text \<open>
  C2, as amended. With all six signals present and their scores numbers, the overall score
  is the weighted sum with weights 0.30, 0.15, 0.25, 0.15, 0.10, 0.05 as the doubles
  compute it: from 0, in that order, with every literal, product and sum rounded; the level
  is the level of that number. The weights as written add up to 1, and six scores of 50
  give exactly 50 and the level MEDIUM.
\<close>

theorem calculateRiskScore_weighted_sum:
  "calculateRiskScore (six_signals d t b f c r)
     = Inr \<lparr>overall = weightedSum d t b f c r,
            level = getRiskLevel_number (weightedSum d t b f c r),
            details = six_signals d t b f c r\<rparr>
   \<and> sum_list (map snd weightLiterals) = 1
   \<and> calculateRiskScore
        (six_signals (Finite 50) (Finite 50) (Finite 50) (Finite 50) (Finite 50) (Finite 50))
     = Inr \<lparr>overall = Finite 50, level = MEDIUM,
            details = six_signals (Finite 50) (Finite 50) (Finite 50) (Finite 50) (Finite 50)
                        (Finite 50)\<rparr>"
proof -
  have w: "sum_list (map snd weightLiterals) = 1"
    by (simp add: weightLiterals_def)
  have n: "calculateRiskScore
        (six_signals (Finite 50) (Finite 50) (Finite 50) (Finite 50) (Finite 50) (Finite 50))
     = Inr \<lparr>overall = Finite 50, level = MEDIUM,
            details = six_signals (Finite 50) (Finite 50) (Finite 50) (Finite 50) (Finite 50)
                        (Finite 50)\<rparr>"
    by (simp add: calculateRiskScore_six weightedSum_neutral)
  show ?thesis
    using calculateRiskScore_six [of d t b f c r] w n by blast
qed

theorem calculateRiskScore_weighted_sum_witness:
  "calculateRiskScore
     (six_signals (Finite 90) (Finite 70) (Finite 80) (Finite 60) (Finite 50) (Finite 50))
   = Inr \<lparr>overall = Finite 74, level = LOW,
          details = six_signals (Finite 90) (Finite 70) (Finite 80) (Finite 60) (Finite 50)
                      (Finite 50)\<rparr>"
  using calculateRiskScore_weighted_sum
    [of "Finite 90" "Finite 70" "Finite 80" "Finite 60" "Finite 50" "Finite 50"]
  by (simp add: weightedSum_74)

text \<open>
  The claim as stated fails: the overall score is not always the exact weighted sum. For
  the scores 57, 70, 0, 40, 39, 50 the exact sum is 40, on the border of MEDIUM, and the
  doubles give a number below 40 and the level HIGH.
\<close>

theorem calculateRiskScore_exact_sum_counterexample:
  "57 * 0.30 + 70 * 0.15 + 0 * 0.25 + 40 * 0.15 + 39 * 0.10 + 50 * 0.05 = (40::real)
   \<and> getRiskLevel 40 = MEDIUM
   \<and> (5629499534213119 / 140737488355328 :: real) < 40
   \<and> calculateRiskScore
        (six_signals (Finite 57) (Finite 70) (Finite 0) (Finite 40) (Finite 39) (Finite 50))
     = Inr \<lparr>overall = Finite (5629499534213119 / 140737488355328), level = HIGH,
            details = six_signals (Finite 57) (Finite 70) (Finite 0) (Finite 40) (Finite 39)
                        (Finite 50)\<rparr>"
  by (simp add: calculateRiskScore_six weightedSum_57)

lemma fold_addWeighted_filter:
  "fold (addWeighted results) ws acc
     = fold (addTerm results) (filter (\<lambda>(key, weight). carriesScore results key) ws) acc"
proof (induction ws arbitrary: acc)
  case Nil
  show ?case by simp
next
  case (Cons kw ws)
  obtain key weight where kw: "kw = (key, weight)" by (cases kw)
  show ?case
  proof (cases acc)
    case (Inl e)
    then show ?thesis
      using Cons [of "Inl e"] by (simp add: kw)
  next
    case (Inr totalScore)
    then show ?thesis
      using Cons by (simp add: kw carriesScore_def split: option.splits sum.splits)
  qed
qed

text \<open>
  C10, as amended. An entry that is missing, or whose score is undefined, adds nothing to
  the sum, and the weights of the others are left as they are: the overall score is the sum
  of doubles over the signals that carry a score, each with its own weight. A score that is
  there but is not a number is not left out: it is converted to a number and its term is
  added.
\<close>

theorem calculateRiskScore_missing_signals:
  "calculateRiskScore results
     = (case sumOverPresent results of
          Inl e \<Rightarrow> Inl e
        | Inr totalScore \<Rightarrow>
            Inr \<lparr>overall = totalScore, level = getRiskLevel_number totalScore,
                  details = results\<rparr>)"
  by (simp add: calculateRiskScore_def sumOverPresent_def fold_addWeighted_filter)

lemma sumOverPresent_partial:
  "sumOverPresent results_partial = Inr (jsadd (Finite 0) (jsmul (Finite 50) (toDouble (3 / 10))))"
  by (simp add: sumOverPresent_def weights_eval results_partial_def carriesScore_def)

lemma term_15: "jsadd (Finite 0) (jsmul (Finite 50) (toDouble (3 / 10))) = Finite 15"
  by code_simp

theorem calculateRiskScore_missing_signals_witness:
  "calculateRiskScore results_partial
     = Inr \<lparr>overall = Finite 15, level = CRITICAL, details = results_partial\<rparr>"
  using calculateRiskScore_missing_signals [of results_partial]
  by (simp add: sumOverPresent_partial term_15)

lemma stringToNumber_abc: "stringToNumber (js ''abc'') = NotANumber"
  by (simp add: stringToNumber_def trim_def isWhiteSpace_def unsignedDecimal_def isDigit_def
      js_def Let_def)

lemma sum_without_domain:
  "jsadd (jsadd (jsadd (jsadd (jsadd (Finite 0)
       (jsmul (Finite 50) (toDouble (3 / 20))))
       (jsmul (Finite 50) (toDouble (1 / 4))))
       (jsmul (Finite 50) (toDouble (3 / 20))))
       (jsmul (Finite 50) (toDouble (1 / 10))))
       (jsmul (Finite 50) (toDouble (1 / 20))) = Finite 35"
  by code_simp

text \<open>
  The claim as stated fails for a score that is there but is not a number: with the string
  \<open>abc\<close> as the score of the domain signal the term is not left out, the total is \<open>NaN\<close>
  and the level CRITICAL, where the sum over the five numeric scores is 35 (HIGH).
\<close>

theorem calculateRiskScore_non_numeric_counterexample:
  "results_abc ''domain'' = Some (Prim (VString (js ''abc'')))
   \<and> calculateRiskScore results_abc
     = Inr \<lparr>overall = NotANumber, level = CRITICAL, details = results_abc\<rparr>
   \<and> calculateRiskScore (results_abc(''domain'' := None))
     = Inr \<lparr>overall = Finite 35, level = HIGH, details = results_abc(''domain'' := None)\<rparr>"
proof -
  have a: "results_abc ''domain'' = Some (Prim (VString (js ''abc'')))"
    by (simp add: results_abc_def)
  have b: "fold (addWeighted results_abc) weights (Inr (Finite 0)) = Inr NotANumber"
    by (simp add: weights_eval results_abc_def six_signals_def stringToNumber_abc)
  have c: "fold (addWeighted (results_abc(''domain'' := None))) weights (Inr (Finite 0))
     = Inr (jsadd (jsadd (jsadd (jsadd (jsadd (Finite 0)
       (jsmul (Finite 50) (toDouble (3 / 20))))
       (jsmul (Finite 50) (toDouble (1 / 4))))
       (jsmul (Finite 50) (toDouble (3 / 20))))
       (jsmul (Finite 50) (toDouble (1 / 10))))
       (jsmul (Finite 50) (toDouble (1 / 20))))"
    by (simp add: weights_eval results_abc_def six_signals_def)
  show ?thesis
    by (simp add: a calculateRiskScore_def b c sum_without_domain)
qed

subsection \<open>Strings\<close>

lemma startsWith_prefix: "startsWith s p = prefix p s"
  by (induction s p rule: startsWith.induct) auto

lemma endsWith_suffix: "endsWith s p = suffix p s"
  by (simp add: endsWith_def startsWith_prefix suffix_to_prefix)

lemma split_js_not_Nil: "split_js c xs \<noteq> []"
  by (induction xs) (auto split: list.splits)

lemma split_js_no_separator: "c \<notin> set ys \<Longrightarrow> split_js c ys = [ys]"
  by (induction ys) auto

lemma split_js_append_length: "2 \<le> length (split_js c (xs @ c # ys))"
proof (induction xs)
  case Nil
  have "split_js c ys \<noteq> []" by (rule split_js_not_Nil)
  then show ?case by (cases "split_js c ys") auto
next
  case (Cons x xs)
  then show ?case by (cases "split_js c (xs @ c # ys)") auto
qed

lemma last_split_js_append: "last (split_js c (xs @ c # ys)) = last (split_js c ys)"
proof (induction xs)
  case Nil
  show ?case by (simp add: split_js_not_Nil)
next
  case (Cons x xs)
  let ?l = "split_js c (xs @ c # ys)"
  have "2 \<le> length ?l" by (rule split_js_append_length)
  then obtain a b r where l: "?l = a # b # r"
    by (cases ?l; cases "tl ?l") auto
  show ?case using Cons l by auto
qed

lemma last_split_js_suffix:
  assumes "suffix (c # ys) h" and "c \<notin> set ys"
  shows "last (split_js c h) = ys"
proof -
  from assms(1) obtain xs where "h = xs @ c # ys" by (auto simp: suffix_def)
  then show ?thesis by (simp add: last_split_js_append split_js_no_separator assms(2))
qed

lemma asciiUpper_idem: "asciiUpper (asciiUpper c) = asciiUpper c"
  by (auto simp: asciiUpper_def)

lemma toUpperCase_idem: "toUpperCase (toUpperCase s) = toUpperCase s"
  by (simp add: toUpperCase_def asciiUpper_idem)

subsection \<open>DomainSignal\<close>

lemma trusted_ends_com: "d \<in> set trustedDomains \<Longrightarrow> suffix (js ''.com'') d"
  by (auto simp: trustedDomains_def js_def suffix_def)

lemma matchesTrusted_iff:
  "matchesTrusted h ds = (\<exists>d \<in> set ds. h = d \<or> suffix (js ''.'' @ d) h)"
  by (induction ds) (auto simp: endsWith_suffix)

lemma trusted_tld:
  assumes "d \<in> set trustedDomains" and "h = d \<or> suffix (js ''.'' @ d) h"
  shows "last (split_js 46 h) = js ''com''"
proof -
  have "suffix (js ''.com'') d" using assms(1) by (rule trusted_ends_com)
  moreover have "suffix d h" using assms(2) by (auto simp: suffix_def)
  ultimately have "suffix (js ''.com'') h" by (rule suffix_order.trans)
  then have "suffix (46 # js ''com'') h" by (simp add: js_def)
  moreover have "46 \<notin> set (js ''com'')" by (simp add: js_def)
  ultimately show ?thesis by (rule last_split_js_suffix)
qed

lemma com_not_suspicious: "js ''com'' \<notin> set suspiciousTLDs"
  by (simp add: suspiciousTLDs_def js_def)

text \<open>
  C1, as amended. For a hostname that equals an entry of the trusted list or ends with a dot
  and an entry, the analysis is trusted, the deductions for \<open>login\<close> and \<open>secure\<close> are
  not made and the deduction for the top-level domain never applies (every entry ends in
  \<open>.com\<close>); the deductions for homograph characters (30) and for a scheme other than
  \<open>https:\<close> (40) are still made, so the score is 90 minus those two.
\<close>

theorem analyzeDomain_trusted:
  assumes "d \<in> set trustedDomains"
    and "loc_hostname pg = d \<or> (\<exists>sub. loc_hostname pg = sub @ js ''.'' @ d)"
  shows "isTrusted (analyzeDomain pg)
    \<and> msg_login \<notin> set (suspiciousPatterns (analyzeDomain pg))
    \<and> msg_secure \<notin> set (suspiciousPatterns (analyzeDomain pg))
    \<and> score (analyzeDomain pg)
        = 90 - (if containsHomographs (loc_hostname pg) then 30 else 0)
             - (if loc_protocol pg \<noteq> js ''https:'' then 40 else 0)"
proof -
  have h: "loc_hostname pg = d \<or> suffix (js ''.'' @ d) (loc_hostname pg)"
    using assms(2) by (auto simp: suffix_def)
  have m: "matchesTrusted (loc_hostname pg) trustedDomains"
    using assms(1) h by (auto simp: matchesTrusted_iff)
  have t: "last (split_js 46 (loc_hostname pg)) = js ''com''"
    using assms(1) h by (rule trusted_tld)
  have n: "last (split_js 46 (loc_hostname pg)) \<notin> set suspiciousTLDs"
    by (simp only: t com_not_suspicious not_False_eq_True)
  show ?thesis
    by (simp add: analyzeDomain_def Let_def m n msg_login_def msg_secure_def js_def)
qed

theorem analyzeDomain_trusted_witness:
  "isTrusted (analyzeDomain page_gist_https) \<and> score (analyzeDomain page_gist_https) = 90"
proof -
  have d: "js ''github.com'' \<in> set trustedDomains"
    by (simp add: trustedDomains_def)
  have h: "loc_hostname page_gist_https = js ''github.com''
      \<or> (\<exists>sub. loc_hostname page_gist_https = sub @ js ''.'' @ js ''github.com'')"
    by (rule disjI2, rule exI [of _ "js ''gist''"]) (simp add: page_gist_https_def js_def)
  have c: "\<not> containsHomographs (loc_hostname page_gist_https)"
    by (simp add: containsHomographs_def homographChar_def page_gist_https_def js_def)
  have p: "loc_protocol page_gist_https = js ''https:''"
    by (simp add: page_gist_https_def)
  show ?thesis
    using analyzeDomain_trusted [OF d h] c p by simp
qed

text \<open>
  The claim as stated fails: \<open>github.com\<close> is on the list, and over \<open>http:\<close> its score
  is 50, not 90.
\<close>

theorem analyzeDomain_trusted_http_counterexample:
  "loc_hostname page_github_http \<in> set trustedDomains
   \<and> isTrusted (analyzeDomain page_github_http)
   \<and> score (analyzeDomain page_github_http) = 50"
  by (simp add: analyzeDomain_def Let_def page_github_http_def trustedDomains_def
      suspiciousTLDs_def containsHomographs_def homographChar_def endsWith_def js_def)

subsection \<open>BreachSignal\<close>

lemma sha1_upper: "sha1 pf password = Inr h \<Longrightarrow> toUpperCase h = h"
  by (auto simp: sha1_def toUpperCase_idem split: sum.splits)

lemma suffix_upper: "sha1 pf password = Inr h \<Longrightarrow> toUpperCase (drop 5 h) = drop 5 h"
proof -
  assume "sha1 pf password = Inr h"
  then have "toUpperCase h = h" by (rule sha1_upper)
  then have "drop 5 (toUpperCase h) = drop 5 h" by simp
  then show ?thesis by (simp add: toUpperCase_def drop_map)
qed

lemma scanHashes_find:
  "scanHashes suf hashes =
     (case find (\<lambda>line. item (split_js 58 line) 0 = Some suf) hashes of
        None \<Rightarrow> None
      | Some line \<Rightarrow>
          Some \<lparr>score = 0, checked = True, found = True,
                count = Some (parseInt (item (split_js 58 line) 1)),
                warning = Some (js ''Password found in '' @ interpolate (item (split_js 58 line) 1)
                                @ js '' data breaches'')\<rparr>)"
  by (induction hashes) (simp_all add: Let_def)

lemma checkPasswordBreach_sent:
  "fst (checkPasswordBreach pf password)
     = (case sha1 pf password of Inl e \<Rightarrow> [] | Inr h \<Rightarrow> [breachRequest (take 5 h)])"
  by (simp add: checkPasswordBreach_def checkPasswordBreach_try_def Let_def
      split: sum.splits option.splits)

lemma checkPasswordBreach_Inr: "\<exists>r. snd (checkPasswordBreach pf password) = Inr r"
  by (simp add: checkPasswordBreach_def checkPasswordBreach_try_def Let_def
      split: sum.splits option.splits)

text \<open>
  C5. The breach check never ends in an error, and it gives the neutral result
  \<open>{checked: false, found: false, score: 50}\<close> whenever the digest throws, \<open>fetch\<close>
  throws, the response is not OK, or reading the body throws.
\<close>

theorem checkPasswordBreach_fail_open:
  "(\<exists>r. snd (checkPasswordBreach pf password) = Inr r)
   \<and> (sha1 pf password = Inl e \<longrightarrow>
        snd (checkPasswordBreach pf password)
          = Inr \<lparr>score = 50, checked = False, found = False, count = None, warning = None\<rparr>)
   \<and> (sha1 pf password = Inr h \<and> fetch pf (breachRequest (take 5 h)) = Inl e \<longrightarrow>
        snd (checkPasswordBreach pf password)
          = Inr \<lparr>score = 50, checked = False, found = False, count = None, warning = None\<rparr>)
   \<and> (sha1 pf password = Inr h \<and> fetch pf (breachRequest (take 5 h)) = Inr resp
        \<and> \<not> ok resp \<longrightarrow>
        snd (checkPasswordBreach pf password)
          = Inr \<lparr>score = 50, checked = False, found = False, count = None, warning = None\<rparr>)
   \<and> (sha1 pf password = Inr h \<and> fetch pf (breachRequest (take 5 h)) = Inr resp
        \<and> ok resp \<and> body_text resp = Inl e \<longrightarrow>
        snd (checkPasswordBreach pf password)
          = Inr \<lparr>score = 50, checked = False, found = False, count = None, warning = None\<rparr>)"
  by (simp add: checkPasswordBreach_Inr)
    (simp add: checkPasswordBreach_def checkPasswordBreach_try_def Let_def neutral_def)

lemma sha1_password:
  "digest pf = digest_table \<Longrightarrow>
     sha1 pf (js ''password'') = Inr (js ''5BAA61E4C9B93F3F0682250B6CF8331B7EE68FD8'')"
  by (simp add: sha1_def digest_table_def byteHex_def hexDigit_def toUpperCase_def
      asciiUpper_def js_def)

lemma sha1_password866713:
  "digest pf = digest_table \<Longrightarrow>
     sha1 pf (js ''password866713'') = Inr (js ''5BAA6EC34C4FB25040420B0624F826E874094778'')"
  by (simp add: sha1_def digest_table_def byteHex_def hexDigit_def toUpperCase_def
      asciiUpper_def js_def)

theorem checkPasswordBreach_fail_open_witness:
  "snd (checkPasswordBreach pf_no_crypto (js ''password''))
     = Inr \<lparr>score = 50, checked = False, found = False, count = None, warning = None\<rparr>
   \<and> snd (checkPasswordBreach pf_offline (js ''password''))
     = Inr \<lparr>score = 50, checked = False, found = False, count = None, warning = None\<rparr>
   \<and> snd (checkPasswordBreach pf_unavailable (js ''password''))
     = Inr \<lparr>score = 50, checked = False, found = False, count = None, warning = None\<rparr>
   \<and> snd (checkPasswordBreach pf_broken_body (js ''password''))
     = Inr \<lparr>score = 50, checked = False, found = False, count = None, warning = None\<rparr>"
proof -
  let ?h = "js ''5BAA61E4C9B93F3F0682250B6CF8331B7EE68FD8''"
  have a: "sha1 pf_no_crypto (js ''password'') = Inl (Error ''crypto.subtle is undefined'')"
    by (simp add: sha1_def pf_no_crypto_def)
  have b: "sha1 pf_offline (js ''password'') = Inr ?h"
    by (rule sha1_password) (simp add: pf_offline_def)
  have b': "fetch pf_offline req = Inl (Error ''Failed to fetch'')" for req
    by (simp add: pf_offline_def)
  have c: "sha1 pf_unavailable (js ''password'') = Inr ?h"
    by (rule sha1_password) (simp add: pf_unavailable_def)
  have c': "fetch pf_unavailable req = Inr \<lparr>ok = False, body_text = Inr []\<rparr>" for req
    by (simp add: pf_unavailable_def)
  have d: "sha1 pf_broken_body (js ''password'') = Inr ?h"
    by (rule sha1_password) (simp add: pf_broken_body_def)
  have d': "fetch pf_broken_body req
      = Inr \<lparr>ok = True, body_text = Inl (Error ''body stream failed'')\<rparr>" for req
    by (simp add: pf_broken_body_def)
  show ?thesis
    using checkPasswordBreach_fail_open
        [of pf_no_crypto "js ''password''" "Error ''crypto.subtle is undefined''"]
      checkPasswordBreach_fail_open
        [of pf_offline "js ''password''" "Error ''Failed to fetch''" ?h]
      checkPasswordBreach_fail_open
        [of pf_unavailable "js ''password''" _ ?h "\<lparr>ok = False, body_text = Inr []\<rparr>"]
      checkPasswordBreach_fail_open
        [of pf_broken_body "js ''password''" "Error ''body stream failed''" ?h
          "\<lparr>ok = True, body_text = Inl (Error ''body stream failed'')\<rparr>"]
    by (simp add: a b b' c c' d d')
qed


lemma checkPasswordBreach_after_fetch:
  assumes "sha1 pf password = Inr h"
    and "fetch pf (breachRequest (take 5 h)) = Inr resp"
    and "ok resp"
    and "body_text resp = Inr data"
  shows "snd (checkPasswordBreach pf password) =
     (case find (\<lambda>line. item (split_js 58 line) 0 = Some (drop 5 h)) (split_js 10 data) of
        None \<Rightarrow>
          Inr \<lparr>score = 80, checked = True, found = False, count = None, warning = None\<rparr>
      | Some line \<Rightarrow>
          Inr \<lparr>score = 0, checked = True, found = True,
                count = Some (parseInt (item (split_js 58 line) 1)),
                warning = Some (js ''Password found in '' @ interpolate (item (split_js 58 line) 1)
                                @ js '' data breaches'')\<rparr>)"
proof -
  have u: "toUpperCase (drop 5 h) = drop 5 h"
    using assms(1) by (rule suffix_upper)
  show ?thesis
    by (simp add: checkPasswordBreach_def checkPasswordBreach_try_def Let_def assms u
        scanHashes_find split: option.splits)
qed

text \<open>
  C6, as amended. After a successful fetch the body is split at line feeds, and the part of
  each line before its first colon is compared with the suffix of the digest (upper-case
  hexadecimal) by exact equality. The first line that matches gives score 0, \<open>found = true\<close>
  and a warning holding the text between its first and second colon; no match gives score
  80 and \<open>found = false\<close>.
\<close>

theorem checkPasswordBreach_scan:
  assumes "sha1 pf password = Inr h"
    and "fetch pf (breachRequest (take 5 h)) = Inr resp"
    and "ok resp"
    and "body_text resp = Inr data"
  shows "snd (checkPasswordBreach pf password) =
     (case find (\<lambda>line. item (split_js 58 line) 0 = Some (drop 5 h)) (split_js 10 data) of
        None \<Rightarrow>
          Inr \<lparr>score = 80, checked = True, found = False, count = None, warning = None\<rparr>
      | Some line \<Rightarrow>
          Inr \<lparr>score = 0, checked = True, found = True,
                count = Some (parseInt (item (split_js 58 line) 1)),
                warning = Some (js ''Password found in '' @ interpolate (item (split_js 58 line) 1)
                                @ js '' data breaches'')\<rparr>)"
  using assms by (rule checkPasswordBreach_after_fetch)

lemma lines_upper: "split_js 10 body_upper =
   [js ''0018A45C4D1DEF81644B54AB7F969B88D65:1'' @ [13],
    js ''1E4C9B93F3F0682250B6CF8331B7EE68FD8:3861493'' @ [13],
    js ''011053FD0102E94D6AE2F8B83D76FAF94F6:1'']"
  by (simp add: body_upper_def js_def)

lemma lines_lower: "split_js 10 body_lower =
   [js ''0018a45c4d1def81644b54ab7f969b88d65:1'' @ [13],
    js ''1e4c9b93f3f0682250b6cf8331b7ee68fd8:3861493'' @ [13],
    js ''011053fd0102e94d6ae2f8b83d76faf94f6:1'']"
  by (simp add: body_lower_def js_def)

lemma find_upper:
  "find (\<lambda>line. item (split_js 58 line) 0 = Some (js ''1E4C9B93F3F0682250B6CF8331B7EE68FD8''))
     (split_js 10 body_upper)
   = Some (js ''1E4C9B93F3F0682250B6CF8331B7EE68FD8:3861493'' @ [13])"
  unfolding lines_upper by (simp add: js_def)

lemma count_upper:
  "item (split_js 58 (js ''1E4C9B93F3F0682250B6CF8331B7EE68FD8:3861493'' @ [13])) 1
     = Some (js ''3861493'' @ [13])"
  by (simp add: js_def)

lemma parseInt_count: "parseInt (Some (js ''3861493'' @ [13])) = Number 3861493"
  by (simp add: parseInt_def Let_def isWhiteSpace_def digitVal_def js_def)

theorem checkPasswordBreach_scan_witness:
  "snd (checkPasswordBreach pf_upper (js ''password''))
     = Inr \<lparr>score = 0, checked = True, found = True, count = Some (Number 3861493),
            warning = Some (js ''Password found in 3861493'' @ [13] @ js '' data breaches'')\<rparr>"
proof -
  let ?h = "js ''5BAA61E4C9B93F3F0682250B6CF8331B7EE68FD8''"
  have s: "sha1 pf_upper (js ''password'') = Inr ?h"
    by (rule sha1_password) (simp add: pf_upper_def)
  have f: "fetch pf_upper (breachRequest (take 5 ?h)) = Inr \<lparr>ok = True, body_text = Inr body_upper\<rparr>"
    by (simp add: pf_upper_def)
  have d: "drop 5 ?h = js ''1E4C9B93F3F0682250B6CF8331B7EE68FD8''"
    by (simp add: js_def)
  have w: "js ''Password found in '' @ interpolate (Some (js ''3861493'' @ [13]))
             @ js '' data breaches''
           = js ''Password found in 3861493'' @ [13] @ js '' data breaches''"
    by (simp add: interpolate_def js_def)
  have o: "ok \<lparr>ok = True, body_text = Inr body_upper\<rparr>"
    by simp
  have b: "body_text \<lparr>ok = True, body_text = Inr body_upper\<rparr> = Inr body_upper"
    by simp
  show ?thesis
    unfolding checkPasswordBreach_scan [OF s f o b]
    by (simp only: d find_upper option.case count_upper parseInt_count w)
qed

text \<open>
  The claim as stated fails: the comparison is not case-insensitive. A body whose record
  carries the suffix in lower case is not matched, and the score is 80.
\<close>

theorem checkPasswordBreach_lower_case_counterexample:
  "sha1 pf_lower (js ''password'') = Inr (js ''5BAA61E4C9B93F3F0682250B6CF8331B7EE68FD8'')
   \<and> fetch pf_lower (breachRequest (js ''5BAA6''))
       = Inr \<lparr>ok = True, body_text = Inr body_lower\<rparr>
   \<and> item (split_js 10 body_lower) 1
       = Some (js ''1e4c9b93f3f0682250b6cf8331b7ee68fd8:3861493'' @ [13])
   \<and> toUpperCase (js ''1e4c9b93f3f0682250b6cf8331b7ee68fd8'')
       = js ''1E4C9B93F3F0682250B6CF8331B7EE68FD8''
   \<and> snd (checkPasswordBreach pf_lower (js ''password''))
       = Inr \<lparr>score = 80, checked = True, found = False, count = None, warning = None\<rparr>"
proof -
  let ?h = "js ''5BAA61E4C9B93F3F0682250B6CF8331B7EE68FD8''"
  have s: "sha1 pf_lower (js ''password'') = Inr ?h"
    by (rule sha1_password) (simp add: pf_lower_def)
  have f: "fetch pf_lower req = Inr \<lparr>ok = True, body_text = Inr body_lower\<rparr>" for req
    by (simp add: pf_lower_def)
  have l: "item (split_js 10 body_lower) 1
       = Some (js ''1e4c9b93f3f0682250b6cf8331b7ee68fd8:3861493'' @ [13])"
    unfolding lines_lower by simp
  have u: "toUpperCase (js ''1e4c9b93f3f0682250b6cf8331b7ee68fd8'')
       = js ''1E4C9B93F3F0682250B6CF8331B7EE68FD8''"
    by (simp add: toUpperCase_def asciiUpper_def js_def)
  have u': "toUpperCase (drop 5 ?h) = js ''1E4C9B93F3F0682250B6CF8331B7EE68FD8''"
    by (simp add: toUpperCase_def asciiUpper_def js_def)
  have n: "scanHashes (js ''1E4C9B93F3F0682250B6CF8331B7EE68FD8'') (split_js 10 body_lower) = None"
    unfolding lines_lower by (simp add: js_def)
  have r: "snd (checkPasswordBreach pf_lower (js ''password''))
       = Inr \<lparr>score = 80, checked = True, found = False, count = None, warning = None\<rparr>"
    by (simp add: checkPasswordBreach_def checkPasswordBreach_try_def s f u' n Let_def)
  show ?thesis
    using s f l u r by simp
qed

text \<open>
  C7. The breach check sends one request, built from the first five characters of the
  digest alone (none when the digest throws); two passwords whose digests share these five
  characters send the same request.
\<close>

theorem breach_request_prefix_only:
  "fst (checkPasswordBreach pf password)
     = (case sha1 pf password of Inl e \<Rightarrow> [] | Inr h \<Rightarrow> [breachRequest (take 5 h)])
   \<and> (sha1 pf password = Inr h \<and> sha1 pf' password' = Inr h' \<and> take 5 h = take 5 h'
        \<longrightarrow> fst (checkPasswordBreach pf password) = fst (checkPasswordBreach pf' password'))"
  by (simp add: checkPasswordBreach_sent)

theorem breach_request_prefix_only_witness:
  "js ''password'' \<noteq> js ''password866713''
   \<and> fst (checkPasswordBreach pf_upper (js ''password''))
       = fst (checkPasswordBreach pf_upper (js ''password866713''))
   \<and> fst (checkPasswordBreach pf_upper (js ''password''))
       = [\<lparr>url = js ''https://api.pwnedpasswords.com/range/5BAA6'', http_method = js ''GET'',
           headers = [(js ''Add-Padding'', js ''true'')]\<rparr>]"
proof -
  let ?h = "js ''5BAA61E4C9B93F3F0682250B6CF8331B7EE68FD8''"
  let ?h' = "js ''5BAA6EC34C4FB25040420B0624F826E874094778''"
  have s: "sha1 pf_upper (js ''password'') = Inr ?h"
    by (rule sha1_password) (simp add: pf_upper_def)
  have s': "sha1 pf_upper (js ''password866713'') = Inr ?h'"
    by (rule sha1_password866713) (simp add: pf_upper_def)
  have t: "take 5 ?h = take 5 ?h'"
    by (simp add: js_def)
  have n: "js ''password'' \<noteq> js ''password866713''"
    by (simp add: js_def)
  have q: "[breachRequest (take 5 ?h)]
       = [\<lparr>url = js ''https://api.pwnedpasswords.com/range/5BAA6'', http_method = js ''GET'',
           headers = [(js ''Add-Padding'', js ''true'')]\<rparr>]"
    by (simp add: breachRequest_def js_def)
  note inst = breach_request_prefix_only
      [of pf_upper "js ''password''" ?h pf_upper "js ''password866713''" ?h']
  have e: "fst (checkPasswordBreach pf_upper (js ''password''))
       = fst (checkPasswordBreach pf_upper (js ''password866713''))"
    using inst s s' t by blast
  have r: "fst (checkPasswordBreach pf_upper (js ''password'')) = [breachRequest (take 5 ?h)]"
    using conjunct1 [OF inst] by (simp add: s)
  show ?thesis
    using n e r q by simp
qed


subsection \<open>FormSignal\<close>

text \<open>
  What the score of the form is: the bonus for a remember-me checkbox and the bonuses for
  the links are added once for every element that matches.
\<close>

lemma fold_checkboxStep_score:
  "score (fold (checkboxStep f) cbs a)
     = score a + 5 * real (length (filter (\<lambda>cb.
         case find (\<lambda>l. label_for l = Some (el_id cb)) (labels f) of
           None \<Rightarrow> False
         | Some l \<Rightarrow> test_i (js ''remember'') (label_text l)) cbs))"
  by (induction cbs arbitrary: a) (auto simp: checkboxStep_def split: option.splits)

lemma fold_linkStep_score:
  "score (fold linkStep ls a)
     = score a
       + 10 * real (length (filter (\<lambda>t. test_i (js ''forgot'') t \<or> test_i (js ''reset'') t) ls))
       + 5 * real (length (filter (\<lambda>t. test_i (js ''register'') t \<or> test_i (js ''sign up'') t
                                      \<or> test_i (js ''create account'') t) ls))"
  by (induction ls arbitrary: a) (auto simp: linkStep_def Let_def)

lemma analyzeFormCharacteristics_score:
  "score (analyzeFormCharacteristics pg f)
     = 50 + (if 2 \<le> length (labels f) then 10 else 0)
       + 5 * real (length (filter (\<lambda>cb.
           case find (\<lambda>l. label_for l = Some (el_id cb)) (labels f) of
             None \<Rightarrow> False
           | Some l \<Rightarrow> test_i (js ''remember'') (label_text l))
           (filter (\<lambda>i. el_type i = js ''checkbox'') (inputs f))))
       + 10 * real (length (filter (\<lambda>t. test_i (js ''forgot'') t \<or> test_i (js ''reset'') t)
                              (links f)))
       + 5 * real (length (filter (\<lambda>t. test_i (js ''register'') t \<or> test_i (js ''sign up'') t
                                      \<or> test_i (js ''create account'') t) (links f)))
       - (if 0 < iframeCount pg \<and> \<not> isTrusted (analyzeDomain pg) then 20 else 0)"
  by (simp add: analyzeFormCharacteristics_def Let_def fold_checkboxStep_score fold_linkStep_score)

text \<open>
  C8. The adjustments are not applied at most once: on a page that is not trusted and has no
  frames, a form with no labels and no checkboxes whose two links read \<open>Forgot password?\<close>
  and \<open>Reset password\<close> gets +10 for each link and scores 70, where one adjustment for
  ``a forgot/reset-password link exists'' gives 60.
\<close>

theorem analyzeFormCharacteristics_two_links:
  "links form_two_links = [js ''Forgot password?'', js ''Reset password'']
   \<and> analyzeFormCharacteristics page_example form_two_links
     = \<lparr>score = 70, hasProperLabels = False, hasRememberMe = False, hasForgotPassword = True,
        hasRegisterLink = False, suspiciousIframes = False\<rparr>"
  by (simp add: analyzeFormCharacteristics_def Let_def form_two_links_def page_example_def
      linkStep_def test_i_def toUpperCase_def asciiUpper_def js_def)

subsection \<open>DecisionPolicy\<close>

text \<open>
  What the policy does, level by level. \<open>form.submit()\<close> is called, once, on the allowed
  paths of a form that does not hide it, and on no other path.
\<close>

lemma handleRiskDecision_cases:
  "(level rs = CRITICAL \<or> level rs = HIGH \<longrightarrow>
      handleRiskDecision pf pg rs f userChoice
        = ([ShowBlockingWarning rs,
            SendMessage \<lparr>timestamp = now pf, log_url = loc_href pg,
                         log_hostname = loc_hostname pg, riskScore = overall rs,
                         riskLevel = level rs\<rparr>], None))
   \<and> (level rs = MEDIUM \<longrightarrow>
        handleRiskDecision pf pg rs f None = ([ShowWarningWithChoice rs], None)
        \<and> handleRiskDecision pf pg rs f (Some Cancel) = ([ShowWarningWithChoice rs], None)
        \<and> handleRiskDecision pf pg rs f (Some Proceed)
            = (ShowWarningWithChoice rs # fst (allowFormSubmission f),
               snd (allowFormSubmission f)))
   \<and> (level rs = LOW \<longrightarrow>
        handleRiskDecision pf pg rs f userChoice = allowFormSubmission f)
   \<and> (\<not> submitShadowed f \<longrightarrow>
        allowFormSubmission f = ([RemoveEventListener, FormSubmit, SetTimeoutAddListener], None))
   \<and> (submitShadowed f \<longrightarrow>
        allowFormSubmission f
          = ([RemoveEventListener], Some (Error ''TypeError: form.submit is not a function'')))
   \<and> submissions (fst (handleRiskDecision pf pg rs f userChoice)) \<le> 1"
proof (cases "level rs")
  case LOW
  then show ?thesis
    by (simp add: handleRiskDecision_def allowFormSubmission_def submissions_def)
next
  case MEDIUM
  then show ?thesis
    by (cases userChoice; cases "the userChoice")
      (simp_all add: handleRiskDecision_def allowFormSubmission_def submissions_def)
next
  case HIGH
  then show ?thesis
    by (simp add: handleRiskDecision_def showBlockingWarning_def logBlockedAttempt_def
        allowFormSubmission_def submissions_def)
next
  case CRITICAL
  then show ?thesis
    by (simp add: handleRiskDecision_def showBlockingWarning_def logBlockedAttempt_def
        allowFormSubmission_def submissions_def)
qed

subsection \<open>SubmissionInterceptor\<close>

lemma find_in_set: "find P xs = Some x \<Longrightarrow> x \<in> set xs \<and> P x"
  by (induction xs) (auto split: if_splits)

lemma firstFilled_Some:
  "firstFilled sels ins = Some field \<Longrightarrow>
     field \<in> set ins \<and> el_value field \<noteq> [] \<and> (\<exists>sel \<in> set sels. sel field)"
proof (induction sels)
  case Nil
  then show ?case by simp
next
  case (Cons sel sels)
  show ?case
  proof (cases "find sel ins")
    case None
    with Cons show ?thesis by auto
  next
    case (Some x)
    then have x: "x \<in> set ins \<and> sel x" by (rule find_in_set)
    show ?thesis
    proof (cases "el_value x = []")
      case True
      with Cons Some show ?thesis by auto
    next
      case False
      with Cons.prems Some have "field = x" by simp
      with x False show ?thesis by auto
    qed
  qed
qed

lemma selectors_kind:
  "sel \<in> set selectors \<Longrightarrow> sel i \<Longrightarrow>
     el_type i = js ''text'' \<or> el_type i = js ''email''
     \<or> el_autocomplete i = js ''username'' \<or> el_autocomplete i = js ''email''"
  by (auto simp: selectors_def)

lemma findUsernameField_empty:
  assumes "\<forall>i \<in> set (inputs f).
      (el_type i = js ''text'' \<or> el_type i = js ''email''
       \<or> el_autocomplete i = js ''username'' \<or> el_autocomplete i = js ''email'')
      \<longrightarrow> el_value i = []"
  shows "case findUsernameField f of None \<Rightarrow> True | Some u \<Rightarrow> el_value u = []"
proof (cases "firstFilled selectors (inputs f)")
  case None
  show ?thesis
  proof (cases "find (\<lambda>i. el_type i = js ''text'' \<or> el_type i = js ''email'') (inputs f)")
    case n: None
    with None show ?thesis by (simp add: findUsernameField_def)
  next
    case (Some u)
    then have "u \<in> set (inputs f) \<and> (el_type u = js ''text'' \<or> el_type u = js ''email'')"
      by (rule find_in_set)
    with assms have "el_value u = []" by blast
    with None Some show ?thesis by (simp add: findUsernameField_def)
  qed
next
  case (Some field)
  then have "field \<in> set (inputs f) \<and> el_value field \<noteq> []
      \<and> (\<exists>sel \<in> set selectors. sel field)"
    by (rule firstFilled_Some)
  with assms selectors_kind show ?thesis by blast
qed

text \<open>
  C9. When every password input of the form is empty (or there is none), or the field
  \<open>findUsernameField\<close> resolves is missing or empty (as it is when every text or e-mail
  input and every input with \<open>autocomplete\<close> \<open>username\<close> or \<open>email\<close> is empty), the
  handler does nothing: \<open>preventDefault\<close> is not called, no signal is analysed and no risk
  score is computed.
\<close>

theorem handleFormSubmit_not_login:
  assumes "(\<forall>i \<in> set (inputs f). el_type i = js ''password'' \<longrightarrow> el_value i = [])
    \<or> (case findUsernameField f of None \<Rightarrow> True | Some u \<Rightarrow> el_value u = [])
    \<or> (\<forall>i \<in> set (inputs f).
          (el_type i = js ''text'' \<or> el_type i = js ''email''
           \<or> el_autocomplete i = js ''username'' \<or> el_autocomplete i = js ''email'')
          \<longrightarrow> el_value i = [])"
  shows "handleFormSubmit pf pg f userChoice
     = \<lparr>effects = [], analysis = None, assessment = None, failure = None\<rparr>"
proof -
  consider (pw) "\<forall>i \<in> set (inputs f). el_type i = js ''password'' \<longrightarrow> el_value i = []"
    | (user) "case findUsernameField f of None \<Rightarrow> True | Some u \<Rightarrow> el_value u = []"
    using assms findUsernameField_empty by blast
  then show ?thesis
  proof cases
    case pw
    show ?thesis
    proof (cases "find (\<lambda>i. el_type i = js ''password'') (inputs f)")
      case None
      then show ?thesis by (simp add: handleFormSubmit_def passThrough_def)
    next
      case (Some p)
      then have "p \<in> set (inputs f) \<and> el_type p = js ''password''" by (rule find_in_set)
      with pw have "el_value p = []" by blast
      with Some show ?thesis by (simp add: handleFormSubmit_def passThrough_def)
    qed
  next
    case user
    then show ?thesis
      by (simp add: handleFormSubmit_def passThrough_def split: option.splits)
  qed
qed

theorem handleFormSubmit_not_login_witness:
  "handleFormSubmit pf_upper page_example form_search (Some Proceed)
     = \<lparr>effects = [], analysis = None, assessment = None, failure = None\<rparr>"
proof -
  have "\<forall>i \<in> set (inputs form_search). el_type i = js ''password'' \<longrightarrow> el_value i = []"
    by (simp add: form_search_def js_def)
  then show ?thesis
    using handleFormSubmit_not_login [of form_search pf_upper page_example "Some Proceed"]
    by blast
qed

text \<open>One call of \<open>handleFormSubmit\<close> on a login that is recognised, step by step.\<close>

lemma handleFormSubmit_run:
  assumes "find (\<lambda>i. el_type i = js ''password'') (inputs f) = Some p"
    and "el_value p \<noteq> []"
    and "findUsernameField f = Some u"
    and "el_value u \<noteq> []"
    and "checkPasswordBreach pf (el_value p) = (sent, Inr b)"
    and "calculateRiskScore (resultsObject
           \<lparr>domain = analyzeDomain pg, certificate = analyzeCertificate pg, breachCheck = b,
             formCharacteristics = analyzeFormCharacteristics pg f,
             visualSimilarity = analyzeVisualSimilarity pg,
             domainReputation = checkDomainReputation pg\<rparr>) = Inr rs"
  shows "effects (handleFormSubmit pf pg f userChoice)
       = [PreventDefault, StopPropagation] @ map SendRequest sent
           @ fst (handleRiskDecision pf pg rs f userChoice)
     \<and> assessment (handleFormSubmit pf pg f userChoice) = Some rs
     \<and> failure (handleFormSubmit pf pg f userChoice)
       = snd (handleRiskDecision pf pg rs f userChoice)"
  by (simp add: handleFormSubmit_def performSecurityAnalysis_def assms)

lemma resultsObject_six:
  "resultsObject res
     = six_signals (Finite (score (domain res))) (Finite (score (certificate res)))
         (Finite (score (breachCheck res))) (Finite (score (formCharacteristics res)))
         (Finite (score (visualSimilarity res))) (Finite (score (domainReputation res)))"
  by (simp add: resultsObject_def six_signals_def)

lemma login_fields:
  "find (\<lambda>i. el_type i = js ''password'') (inputs form_login)
     = Some \<lparr>el_type = js ''password'', el_name = js ''pw'', el_id = js ''pw'',
              el_autocomplete = [], el_value = js ''password''\<rparr>
   \<and> findUsernameField form_login
     = Some \<lparr>el_type = js ''email'', el_name = js ''email'', el_id = js ''email'',
              el_autocomplete = js ''username'', el_value = js ''ann@example.org''\<rparr>"
  by (simp add: form_login_def findUsernameField_def selectors_def js_def)

lemma login_clean_fields:
  "find (\<lambda>i. el_type i = js ''password'') (inputs form_login_clean)
     = Some \<lparr>el_type = js ''password'', el_name = js ''pw'', el_id = js ''pw'',
              el_autocomplete = [], el_value = js ''password866713''\<rparr>
   \<and> findUsernameField form_login_clean
     = Some \<lparr>el_type = js ''email'', el_name = js ''email'', el_id = js ''email'',
              el_autocomplete = js ''username'', el_value = js ''ann@example.org''\<rparr>"
  by (simp add: form_login_clean_def findUsernameField_def selectors_def js_def)

lemma login_submit_fields:
  "find (\<lambda>i. el_type i = js ''password'') (inputs form_login_submit)
     = Some \<lparr>el_type = js ''password'', el_name = js ''pw'', el_id = js ''pw'',
              el_autocomplete = [], el_value = js ''password866713''\<rparr>
   \<and> findUsernameField form_login_submit
     = Some \<lparr>el_type = js ''email'', el_name = js ''email'', el_id = js ''email'',
              el_autocomplete = js ''username'', el_value = js ''ann@example.org''\<rparr>"
  by (simp add: form_login_submit_def findUsernameField_def selectors_def js_def)

lemma values_filled:
  "js ''password'' \<noteq> [] \<and> js ''password866713'' \<noteq> [] \<and> js ''ann@example.org'' \<noteq> []"
  by (simp add: js_def)

lemma login_breach:
  "checkPasswordBreach pf_upper (js ''password'')
     = ([breachRequest (js ''5BAA6'')],
        Inr \<lparr>score = 0, checked = True, found = True, count = Some (Number 3861493),
              warning = Some (js ''Password found in 3861493'' @ [13] @ js '' data breaches'')\<rparr>)"
proof -
  let ?h = "js ''5BAA61E4C9B93F3F0682250B6CF8331B7EE68FD8''"
  have s: "sha1 pf_upper (js ''password'') = Inr ?h"
    by (rule sha1_password) (simp add: pf_upper_def)
  have t: "take 5 ?h = js ''5BAA6''"
    by (simp add: js_def)
  have f: "fetch pf_upper (breachRequest (take 5 ?h)) = Inr \<lparr>ok = True, body_text = Inr body_upper\<rparr>"
    by (simp add: pf_upper_def)
  have d: "drop 5 ?h = js ''1E4C9B93F3F0682250B6CF8331B7EE68FD8''"
    by (simp add: js_def)
  have w: "js ''Password found in '' @ interpolate (Some (js ''3861493'' @ [13]))
             @ js '' data breaches''
           = js ''Password found in 3861493'' @ [13] @ js '' data breaches''"
    by (simp add: interpolate_def js_def)
  have o: "ok \<lparr>ok = True, body_text = Inr body_upper\<rparr>"
    by simp
  have b: "body_text \<lparr>ok = True, body_text = Inr body_upper\<rparr> = Inr body_upper"
    by simp
  have 1: "fst (checkPasswordBreach pf_upper (js ''password'')) = [breachRequest (js ''5BAA6'')]"
    by (simp add: checkPasswordBreach_sent s t)
  have 2: "snd (checkPasswordBreach pf_upper (js ''password''))
     = Inr \<lparr>score = 0, checked = True, found = True, count = Some (Number 3861493),
            warning = Some (js ''Password found in 3861493'' @ [13] @ js '' data breaches'')\<rparr>"
    unfolding checkPasswordBreach_after_fetch [OF s f o b]
    by (simp only: d find_upper option.case count_upper parseInt_count w)
  show ?thesis
    using 1 2 by (simp add: prod_eq_iff)
qed

lemma find_clean:
  "find (\<lambda>line. item (split_js 58 line) 0 = Some (js ''EC34C4FB25040420B0624F826E874094778''))
     (split_js 10 body_upper) = None"
  unfolding lines_upper by (simp add: js_def)

lemma login_clean_breach:
  "checkPasswordBreach pf_upper (js ''password866713'')
     = ([breachRequest (js ''5BAA6'')],
        Inr \<lparr>score = 80, checked = True, found = False, count = None, warning = None\<rparr>)"
proof -
  let ?h = "js ''5BAA6EC34C4FB25040420B0624F826E874094778''"
  have s: "sha1 pf_upper (js ''password866713'') = Inr ?h"
    by (rule sha1_password866713) (simp add: pf_upper_def)
  have t: "take 5 ?h = js ''5BAA6''"
    by (simp add: js_def)
  have f: "fetch pf_upper (breachRequest (take 5 ?h)) = Inr \<lparr>ok = True, body_text = Inr body_upper\<rparr>"
    by (simp add: pf_upper_def)
  have d: "drop 5 ?h = js ''EC34C4FB25040420B0624F826E874094778''"
    by (simp add: js_def)
  have o: "ok \<lparr>ok = True, body_text = Inr body_upper\<rparr>"
    by simp
  have b: "body_text \<lparr>ok = True, body_text = Inr body_upper\<rparr> = Inr body_upper"
    by simp
  have 1: "fst (checkPasswordBreach pf_upper (js ''password866713''))
     = [breachRequest (js ''5BAA6'')]"
    by (simp add: checkPasswordBreach_sent s t)
  have 2: "snd (checkPasswordBreach pf_upper (js ''password866713''))
     = Inr \<lparr>score = 80, checked = True, found = False, count = None, warning = None\<rparr>"
    unfolding checkPasswordBreach_after_fetch [OF s f o b]
    by (simp only: d find_clean option.case)
  show ?thesis
    using 1 2 by (simp add: prod_eq_iff)
qed

lemma example_scores:
  "score (analyzeDomain page_example) = 50
   \<and> score (analyzeCertificate page_example) = 70
   \<and> score (analyzeFormCharacteristics page_example form_login) = 60
   \<and> score (analyzeVisualSimilarity page_example) = 50
   \<and> score (checkDomainReputation page_example) = 50"
  by (simp add: analyzeDomain_def analyzeCertificate_def analyzeFormCharacteristics_def
      analyzeVisualSimilarity_def checkDomainReputation_def Let_def page_example_def
      form_login_def trustedDomains_def suspiciousTLDs_def containsHomographs_def
      homographChar_def endsWith_def js_def)

lemma github_scores:
  "score (analyzeDomain page_github_https) = 90
   \<and> score (analyzeCertificate page_github_https) = 70
   \<and> score (analyzeFormCharacteristics page_github_https form_login_clean) = 60
   \<and> score (analyzeFormCharacteristics page_github_https form_login_submit) = 60
   \<and> score (analyzeVisualSimilarity page_github_https) = 50
   \<and> score (checkDomainReputation page_github_https) = 50"
  by (simp add: analyzeDomain_def analyzeCertificate_def analyzeFormCharacteristics_def
      analyzeVisualSimilarity_def checkDomainReputation_def Let_def page_github_https_def
      form_login_clean_def form_login_submit_def trustedDomains_def suspiciousTLDs_def
      containsHomographs_def homographChar_def endsWith_def js_def)

text \<open>
  A login that is recognised: the submission is held back, the breach service is asked,
  and with an overall score of 42 the user is asked to choose.
\<close>

lemma handleFormSubmit_login_medium:
  "effects (handleFormSubmit pf_upper page_example form_login (Some Cancel))
     = [PreventDefault, StopPropagation,
        SendRequest (breachRequest (js ''5BAA6'')),
        ShowWarningWithChoice
          \<lparr>overall = Finite 42, level = MEDIUM,
            details = six_signals (Finite 50) (Finite 70) (Finite 0) (Finite 60) (Finite 50)
                        (Finite 50)\<rparr>]"
proof -
  let ?rs = "\<lparr>overall = Finite 42, level = MEDIUM,
            details = six_signals (Finite 50) (Finite 70) (Finite 0) (Finite 60) (Finite 50)
                        (Finite 50)\<rparr>"
  have c: "calculateRiskScore (resultsObject
           \<lparr>domain = analyzeDomain page_example, certificate = analyzeCertificate page_example,
             breachCheck = \<lparr>score = 0, checked = True, found = True,
               count = Some (Number 3861493),
               warning = Some (js ''Password found in 3861493'' @ [13] @ js '' data breaches'')\<rparr>,
             formCharacteristics = analyzeFormCharacteristics page_example form_login,
             visualSimilarity = analyzeVisualSimilarity page_example,
             domainReputation = checkDomainReputation page_example\<rparr>) = Inr ?rs"
    by (simp add: resultsObject_six example_scores calculateRiskScore_six weightedSum_42)
  have v: "el_value \<lparr>el_type = js ''password'', el_name = js ''pw'', el_id = js ''pw'',
              el_autocomplete = [], el_value = js ''password''\<rparr> = js ''password''"
    by simp
  have b: "checkPasswordBreach pf_upper
      (el_value \<lparr>el_type = js ''password'', el_name = js ''pw'', el_id = js ''pw'',
              el_autocomplete = [], el_value = js ''password''\<rparr>)
     = ([breachRequest (js ''5BAA6'')],
        Inr \<lparr>score = 0, checked = True, found = True, count = Some (Number 3861493),
              warning = Some (js ''Password found in 3861493'' @ [13] @ js '' data breaches'')\<rparr>)"
    by (simp only: v login_breach)
  have "effects (handleFormSubmit pf_upper page_example form_login (Some Cancel))
       = [PreventDefault, StopPropagation] @ map SendRequest [breachRequest (js ''5BAA6'')]
           @ fst (handleRiskDecision pf_upper page_example ?rs form_login (Some Cancel))"
    using handleFormSubmit_run [OF conjunct1 [OF login_fields] _ conjunct2 [OF login_fields] _ b c]
      values_filled by simp
  then show ?thesis
    by (simp add: handleRiskDecision_def)
qed

text \<open>
  The two login forms on \<open>https://github.com/login\<close> with a password that is not in the
  breach list: the overall score is 74 and the level LOW.
\<close>

lemma github_low:
  "calculateRiskScore (resultsObject
           \<lparr>domain = analyzeDomain page_github_https,
             certificate = analyzeCertificate page_github_https,
             breachCheck = \<lparr>score = 80, checked = True, found = False, count = None,
               warning = None\<rparr>,
             formCharacteristics = analyzeFormCharacteristics page_github_https f,
             visualSimilarity = analyzeVisualSimilarity page_github_https,
             domainReputation = checkDomainReputation page_github_https\<rparr>)
     = Inr \<lparr>overall = Finite 74, level = LOW,
            details = six_signals (Finite 90) (Finite 70) (Finite 80) (Finite 60) (Finite 50)
                        (Finite 50)\<rparr>"
  if "score (analyzeFormCharacteristics page_github_https f) = 60" for f
  using that by (simp add: resultsObject_six github_scores calculateRiskScore_six weightedSum_74)

lemma github_clean_run:
  "effects (handleFormSubmit pf_upper page_github_https form_login_clean None)
     = [PreventDefault, StopPropagation, SendRequest (breachRequest (js ''5BAA6'')),
        RemoveEventListener, FormSubmit, SetTimeoutAddListener]"
proof -
  let ?rs = "\<lparr>overall = Finite 74, level = LOW,
            details = six_signals (Finite 90) (Finite 70) (Finite 80) (Finite 60) (Finite 50)
                        (Finite 50)\<rparr>"
  have v: "el_value \<lparr>el_type = js ''password'', el_name = js ''pw'', el_id = js ''pw'',
              el_autocomplete = [], el_value = js ''password866713''\<rparr> = js ''password866713''"
    by simp
  have b: "checkPasswordBreach pf_upper
      (el_value \<lparr>el_type = js ''password'', el_name = js ''pw'', el_id = js ''pw'',
              el_autocomplete = [], el_value = js ''password866713''\<rparr>)
     = ([breachRequest (js ''5BAA6'')],
        Inr \<lparr>score = 80, checked = True, found = False, count = None, warning = None\<rparr>)"
    by (simp only: v login_clean_breach)
  have c: "score (analyzeFormCharacteristics page_github_https form_login_clean) = 60"
    by (simp add: github_scores)
  have n: "\<not> submitShadowed form_login_clean"
    by (simp add: submitShadowed_def form_login_clean_def js_def)
  have "effects (handleFormSubmit pf_upper page_github_https form_login_clean None)
       = [PreventDefault, StopPropagation] @ map SendRequest [breachRequest (js ''5BAA6'')]
           @ fst (handleRiskDecision pf_upper page_github_https ?rs form_login_clean None)"
    using handleFormSubmit_run
        [OF conjunct1 [OF login_clean_fields] _ conjunct2 [OF login_clean_fields] _ b
          github_low [OF c]]
      values_filled by simp
  then show ?thesis
    by (simp add: handleRiskDecision_def allowFormSubmission_def n)
qed

lemma github_submit_run:
  "effects (handleFormSubmit pf_upper page_github_https form_login_submit None)
     = [PreventDefault, StopPropagation, SendRequest (breachRequest (js ''5BAA6'')),
        RemoveEventListener]
   \<and> assessment (handleFormSubmit pf_upper page_github_https form_login_submit None)
     = Some \<lparr>overall = Finite 74, level = LOW,
            details = six_signals (Finite 90) (Finite 70) (Finite 80) (Finite 60) (Finite 50)
                        (Finite 50)\<rparr>
   \<and> failure (handleFormSubmit pf_upper page_github_https form_login_submit None)
     = Some (Error ''TypeError: form.submit is not a function'')"
proof -
  let ?rs = "\<lparr>overall = Finite 74, level = LOW,
            details = six_signals (Finite 90) (Finite 70) (Finite 80) (Finite 60) (Finite 50)
                        (Finite 50)\<rparr>"
  have v: "el_value \<lparr>el_type = js ''password'', el_name = js ''pw'', el_id = js ''pw'',
              el_autocomplete = [], el_value = js ''password866713''\<rparr> = js ''password866713''"
    by simp
  have b: "checkPasswordBreach pf_upper
      (el_value \<lparr>el_type = js ''password'', el_name = js ''pw'', el_id = js ''pw'',
              el_autocomplete = [], el_value = js ''password866713''\<rparr>)
     = ([breachRequest (js ''5BAA6'')],
        Inr \<lparr>score = 80, checked = True, found = False, count = None, warning = None\<rparr>)"
    by (simp only: v login_clean_breach)
  have c: "score (analyzeFormCharacteristics page_github_https form_login_submit) = 60"
    by (simp add: github_scores)
  have n: "submitShadowed form_login_submit"
    by (simp add: submitShadowed_def form_login_submit_def js_def)
  have r: "handleRiskDecision pf_upper page_github_https ?rs form_login_submit None
     = ([RemoveEventListener], Some (Error ''TypeError: form.submit is not a function''))"
    by (simp add: handleRiskDecision_def allowFormSubmission_def n)
  show ?thesis
    using handleFormSubmit_run
        [OF conjunct1 [OF login_submit_fields] _ conjunct2 [OF login_submit_fields] _ b
          github_low [OF c], of None]
      values_filled by (simp add: r)
qed

text \<open>
  C4. The claim fails on the code in two ways. A login form whose submit button is
  \<open><input type="submit" name="submit">\<close> hides \<open>form.submit\<close>: at the level LOW the
  call throws, \<open>form.submit()\<close> never happens, and the submission that was held back is
  not resumed. And \<open>removeEventListener\<close> removes nothing while every allowed submission
  adds a listener: after one allowed submission on a document that stays in place there
  are two listeners, and the next allowed submission is resumed twice.
\<close>

theorem allowFormSubmission_failures:
  "level assessment_low = LOW
   \<and> submitShadowed form_login_submit
   \<and> handleRiskDecision pf_upper page_github_https assessment_low form_login_submit None
     = ([RemoveEventListener], Some (Error ''TypeError: form.submit is not a function''))
   \<and> effects (handleFormSubmit pf_upper page_github_https form_login_submit None)
     = [PreventDefault, StopPropagation, SendRequest (breachRequest (js ''5BAA6'')),
        RemoveEventListener]
   \<and> map_option level (assessment (handleFormSubmit pf_upper page_github_https
        form_login_submit None)) = Some LOW
   \<and> submissions (effects (handleFormSubmit pf_upper page_github_https form_login_submit
        None)) = 0
   \<and> submissionsOf (fst (submitEvent pf_upper page_github_https form_login_clean None init))
     = 1
   \<and> timersFire (snd (submitEvent pf_upper page_github_https form_login_clean None init))
     = \<lparr>listeners = 2, timers = 0\<rparr>
   \<and> submissionsOf (fst (submitEvent pf_upper page_github_https form_login_clean None
        \<lparr>listeners = 2, timers = 0\<rparr>)) = 2"
proof -
  have n: "submitShadowed form_login_submit"
    by (simp add: submitShadowed_def form_login_submit_def js_def)
  have l: "level assessment_low = LOW"
    by (simp add: assessment_low_def)
  have r: "handleRiskDecision pf_upper page_github_https assessment_low form_login_submit None
     = ([RemoveEventListener], Some (Error ''TypeError: form.submit is not a function''))"
    by (simp add: handleRiskDecision_def allowFormSubmission_def n l)
  have s0: "submissions (effects (handleFormSubmit pf_upper page_github_https
      form_login_submit None)) = 0"
    by (simp add: github_submit_run submissions_def)
  have a: "map_option level (assessment (handleFormSubmit pf_upper page_github_https
        form_login_submit None)) = Some LOW"
    by (simp add: github_submit_run)
  have e1: "submissionsOf (fst (submitEvent pf_upper page_github_https form_login_clean None
      init)) = 1"
    by (simp add: submitEvent_def init_def submissionsOf_def github_clean_run submissions_def)
  have m1: "timersFire (snd (submitEvent pf_upper page_github_https form_login_clean None init))
     = \<lparr>listeners = 2, timers = 0\<rparr>"
    by (simp add: submitEvent_def init_def timersFire_def github_clean_run)
  have e2: "submissionsOf (fst (submitEvent pf_upper page_github_https form_login_clean None
        \<lparr>listeners = 2, timers = 0\<rparr>)) = 2"
    by (simp add: submitEvent_def submissionsOf_def github_clean_run submissions_def
        numeral_2_eq_2)
  show ?thesis
    using l n r github_submit_run s0 a e1 m1 e2 by blast
qed

end
